theory Spec2Isabelle
  imports Main "HOL-Library.Word"
begin

section \<open>JavaScript values used by the chat hook\<close>

text \<open>
  A JavaScript string is a sequence of UTF-16 code units: \<open>length\<close> and \<open>slice\<close> count
  code units, so the model uses lists of 16-bit words. \<open>ascii\<close> embeds an ASCII literal.
\<close>

type_synonym char16 = "16 word"
type_synonym jsstring = "char16 list"

definition ascii :: "string \<Rightarrow> jsstring" where
  "ascii s = map of_char s"

text \<open>Truthiness of a string value: the empty string is falsy.\<close>

definition truthy :: "jsstring \<Rightarrow> bool" where
  "truthy s = (s \<noteq> [])"

text \<open>Truthiness of \<open>string | null\<close> (and of \<open>string | undefined\<close>): only a non-empty string passes.\<close>

definition truthyStr :: "jsstring option \<Rightarrow> jsstring option" where
  "truthyStr v = (case v of None \<Rightarrow> None | Some s \<Rightarrow> if s = [] then None else Some s)"

text \<open>\<open>s.includes(pat)\<close>: \<open>pat\<close> occurs as a contiguous run of code units.\<close>

fun includesStr :: "jsstring \<Rightarrow> jsstring \<Rightarrow> bool" where
  "includesStr [] pat = (pat = [])"
| "includesStr (c # cs) pat = (take (length pat) (c # cs) = pat \<or> includesStr cs pat)"

text \<open>\<open>String.prototype.trim\<close>: strips WhiteSpace and LineTerminator code units at both ends.\<close>

definition isWhiteSpace :: "char16 \<Rightarrow> bool" where
  "isWhiteSpace c =
     (c \<in> set [0x0009, 0x000A, 0x000B, 0x000C, 0x000D, 0x0020, 0x00A0, 0x1680,
                0x2000, 0x2001, 0x2002, 0x2003, 0x2004, 0x2005, 0x2006, 0x2007,
                0x2008, 0x2009, 0x200A, 0x2028, 0x2029, 0x202F, 0x205F, 0x3000, 0xFEFF])"

definition trim :: "jsstring \<Rightarrow> jsstring" where
  "trim s = rev (dropWhile isWhiteSpace (rev (dropWhile isWhiteSpace s)))"

text \<open>\<open>Number.prototype.toString\<close> on an integer: its decimal digits.\<close>

fun decimal :: "nat \<Rightarrow> jsstring" where
  "decimal n = (if n < 10 then [of_nat (48 + n)] else decimal (n div 10) @ [of_nat (48 + n mod 10)])"

declare decimal.simps [simp del]

definition toString :: "int \<Rightarrow> jsstring" where
  "toString i = (if i < 0 then 0x002D # decimal (nat (- i)) else decimal (nat i))"

text \<open>\<open>findIndex\<close> returns \<open>-1\<close> when nothing matches: \<open>None\<close> here.\<close>

fun findIndex :: "('a \<Rightarrow> bool) \<Rightarrow> 'a list \<Rightarrow> nat option" where
  "findIndex P [] = None"
| "findIndex P (x # xs) = (if P x then Some 0 else map_option Suc (findIndex P xs))"

text \<open>\<open>xs[xs.length - 1]\<close>: \<open>undefined\<close> on the empty array.\<close>

definition lastElem :: "'a list \<Rightarrow> 'a option" where
  "lastElem xs = (if xs = [] then None else Some (last xs))"

section \<open>Data model (types.ts)\<close>

datatype Sender = User | Model

datatype ModelId = gemini_3_flash_preview | gemini_3_pro_preview

text \<open>
  An attachment is an object; the sync dirty-check compares attachments with \<open>===\<close>, that is
  by object identity. \<open>a_ref\<close> is that identity.
\<close>

record Attachment =
  a_ref :: nat
  a_mimeType :: jsstring
  a_data :: jsstring
  a_fileName :: "jsstring option"

record Message =
  m_id :: jsstring
  m_sender :: Sender
  m_text :: jsstring
  m_timestamp :: int
  m_isError :: "bool option"
  m_attachment :: "Attachment option"

record ChatSession =
  s_id :: jsstring
  s_title :: jsstring
  s_messages :: "Message list"
  s_updatedAt :: int

section \<open>External collaborators\<close>

text \<open>
  Modelled from the spec: \<open>createChatSession\<close> of services/gemini is not part of the sources;
  the spec gives it as "createConversationContext(model, priorHistory) -> ContextHandle".
  The handle records the model it was created for; the calls modelled here pass no history.
\<close>

datatype Chat = Chat ModelId

definition createChatSession :: "ModelId \<Rightarrow> Chat" where
  "createChatSession m = Chat m"

text \<open>
  A thrown value, as far as the hook inspects it: \<open>name\<close>, a numeric \<open>status\<close> and \<open>code\<close>
  (\<open>None\<close> when absent or not a number) and the text \<open>JSON.stringify\<close> gives for it.
\<close>

record js_error =
  e_name :: jsstring
  e_status :: "int option"
  e_code :: "int option"
  e_json :: jsstring

text \<open>A part of an image response: \<open>inlineData\<close> (mime type, data) and \<open>text\<close>, both optional.\<close>

record Part =
  p_inlineData :: "(jsstring \<times> jsstring) option"
  p_text :: "jsstring option"

text \<open>
  The image service: what \<open>generateImage(prompt)\<close> settles to (a rejection, or
  \<open>response.candidates?.[0]?.content?.parts\<close>), and whether the user presses stop while the
  request is pending.
\<close>

record image_env =
  generateImage :: "jsstring \<Rightarrow> js_error + Part list option"
  stopWhileAwaiting :: bool

text \<open>A streamed chunk: \<open>functionCalls\<close> and \<open>text\<close>; for a call, \<open>args\<close> and \<open>args.prompt\<close>.\<close>

record FunctionCall =
  f_name :: jsstring
  f_args :: "jsstring option option"

record Chunk =
  c_functionCalls :: "FunctionCall list option"
  c_text :: "jsstring option"

text \<open>
  What happens while the stream is consumed, in order: a chunk arrives, or the user presses
  stop between two chunks.
\<close>

datatype stream_event = Deliver Chunk | UserStop

text \<open>
  The backend's side of one turn: the image service, the events of the stream, and how the
  stream ends (closed, or a rejection; a rejection of \<open>sendMessageStream\<close> itself is a
  stream with no chunk that ends in a rejection).
\<close>

record backend =
  imageEnv :: image_env
  events :: "stream_event list"
  streamEnd :: "js_error option"

section \<open>String constants of useChat.ts\<close>

definition DEFAULT_TITLE :: jsstring where
  "DEFAULT_TITLE = ascii ''Cu'' @ [0x1ED9] @ ascii ''c tr'' @ [0x00F2] @ ascii '' chuy'' @ [0x1EC7]
     @ ascii ''n m'' @ [0x1EDB] @ ascii ''i''"

definition QUOTA_MESSAGE :: jsstring where
  "QUOTA_MESSAGE = ascii ''H'' @ [0x1EC7] @ ascii '' th'' @ [0x1ED1] @ ascii ''ng '' @ [0x0111]
     @ ascii ''ang b'' @ [0x1EAD] @ ascii ''n ho'' @ [0x1EB7] @ ascii ''c '' @ [0x0111] @ [0x00E3]
     @ ascii '' h'' @ [0x1EBF] @ ascii ''t h'' @ [0x1EA1] @ ascii ''n m'' @ [0x1EE9] @ ascii ''c s''
     @ [0x1EED] @ ascii '' d'' @ [0x1EE5] @ ascii ''ng mi'' @ [0x1EC5] @ ascii ''n ph'' @ [0x00ED]
     @ ascii '' (429 Resource Exhausted). Vui l'' @ [0x00F2] @ ascii ''ng th'' @ [0x1EED]
     @ ascii '' l'' @ [0x1EA1] @ ascii ''i sau '' @ [0x00ED] @ ascii ''t ph'' @ [0x00FA] @ ascii ''t.''"

definition GENERIC_MESSAGE :: jsstring where
  "GENERIC_MESSAGE = ascii ''Xin l'' @ [0x1ED7] @ ascii ''i, '' @ [0x0111] @ [0x00E3] @ ascii '' c''
     @ [0x00F3] @ ascii '' l'' @ [0x1ED7] @ ascii ''i x'' @ [0x1EA3] @ ascii ''y ra. Vui l'' @ [0x00F2]
     @ ascii ''ng th'' @ [0x1EED] @ ascii '' l'' @ [0x1EA1] @ ascii ''i.''"

definition DRAWING_CAPTION :: jsstring where
  "DRAWING_CAPTION = [0x0110] @ ascii ''ang v'' @ [0x1EBD] @ ascii '' h'' @ [0x00EC] @ ascii ''nh...''"

definition AUTO_IMAGE_CAPTION :: jsstring where
  "AUTO_IMAGE_CAPTION = [0x0110] @ ascii ''ang t'' @ [0x1EA1] @ ascii ''o h'' @ [0x00EC] @ ascii ''nh ''
     @ [0x1EA3] @ ascii ''nh t'' @ [0x1EF1] @ ascii '' '' @ [0x0111] @ [0x1ED9] @ ascii ''ng...''"

definition IMAGE_READY_CAPTION :: jsstring where
  "IMAGE_READY_CAPTION = [0x0110] @ [0x00E2] @ ascii ''y l'' @ [0x00E0] @ ascii '' h'' @ [0x00EC]
     @ ascii ''nh '' @ [0x1EA3] @ ascii ''nh m'' @ [0x00EC] @ ascii ''nh v'' @ [0x1EEB] @ ascii ''a t''
     @ [0x1EA1] @ ascii ''o theo y'' @ [0x00EA] @ ascii ''u c'' @ [0x1EA7] @ ascii ''u c'' @ [0x1EE7]
     @ ascii ''a b'' @ [0x1EA1] @ ascii ''n:''"

definition IMAGE_FAILED_CAPTION :: jsstring where
  "IMAGE_FAILED_CAPTION = ascii ''Xin l'' @ [0x1ED7] @ ascii ''i, m'' @ [0x00EC] @ ascii ''nh kh''
     @ [0x00F4] @ ascii ''ng th'' @ [0x1EC3] @ ascii '' t'' @ [0x1EA1] @ ascii ''o h'' @ [0x00EC]
     @ ascii ''nh '' @ [0x1EA3] @ ascii ''nh l'' @ [0x00FA] @ ascii ''c n'' @ [0x00E0] @ ascii ''y.''"

section \<open>getFriendlyErrorMessage\<close>

definition getFriendlyErrorMessage :: "js_error \<Rightarrow> jsstring" where
  "getFriendlyErrorMessage error =
     (let errString = e_json error in
      if e_status error = Some 429 \<or>
         e_code error = Some 429 \<or>
         includesStr errString (ascii ''429'') \<or>
         includesStr errString (ascii ''RESOURCE_EXHAUSTED'') \<or>
         includesStr errString (ascii ''quota'')
      then QUOTA_MESSAGE
      else GENERIC_MESSAGE)"

section \<open>State of the hook\<close>

text \<open>
  The five \<open>useState\<close> cells and the two refs. \<open>AbortController\<close> objects live in
  \<open>controllers\<close>: the index is the object's identity, the entry its \<open>signal.aborted\<close>;
  \<open>abortControllerRef\<close> holds an identity or null. \<open>nextRef\<close> is the next unused identity
  for attachment objects.
\<close>

record hook_state =
  messages :: "Message list"
  sessions :: "ChatSession list"
  currentSessionId :: "jsstring option"
  isLoading :: bool
  currentModel :: ModelId
  chatSessionRef :: "Chat option"
  abortControllerRef :: "nat option"
  controllers :: "bool list"
  nextRef :: nat

definition signal_aborted :: "hook_state \<Rightarrow> nat \<Rightarrow> bool" where
  "signal_aborted st c = (c < length (controllers st) \<and> controllers st ! c)"

section \<open>startNewChat and stopGeneration\<close>

definition startNewChat :: "bool \<Rightarrow> hook_state \<Rightarrow> hook_state" where
  "startNewChat shouldClearMessages st =
     (let st1 = st\<lparr>currentSessionId := None\<rparr>;
          st2 = (if shouldClearMessages then st1\<lparr>messages := []\<rparr> else st1)
      in st2\<lparr>chatSessionRef := None, abortControllerRef := None\<rparr>)"

definition stopGeneration :: "hook_state \<Rightarrow> hook_state" where
  "stopGeneration st =
     (let st1 = (case abortControllerRef st of
                   Some c \<Rightarrow> st\<lparr>controllers := (controllers st)[c := True]\<rparr>
                 | None \<Rightarrow> st)
      in st1\<lparr>isLoading := False\<rparr>)"

section \<open>Session store: load, sync, select, delete, clear\<close>

text \<open>
  The comparator \<open>(a, b) => b.updatedAt - a.updatedAt\<close> with the stable
  \<open>Array.prototype.sort\<close>: a stable sort on the negated key.
\<close>

definition sortSessions :: "ChatSession list \<Rightarrow> ChatSession list" where
  "sortSessions = sort_key (\<lambda>s. - s_updatedAt s)"

definition storageKey :: "jsstring \<Rightarrow> jsstring" where
  "storageKey userEmail = ascii ''kite_sessions_'' @ userEmail"

text \<open>
  The load effect, run when \<open>userEmail\<close> changes. \<open>getItem\<close> is localStorage;
  \<open>deserialize\<close> is \<open>JSON.parse(stored).map(...)\<close> with the timestamps rebuilt, \<open>None\<close>
  when any of it throws. The state updates of one effect are committed together.
\<close>

definition loadSessionsEffect ::
  "jsstring option \<Rightarrow> (jsstring \<Rightarrow> jsstring option) \<Rightarrow> (jsstring \<Rightarrow> ChatSession list option)
     \<Rightarrow> hook_state \<Rightarrow> hook_state" where
  "loadSessionsEffect userEmail getItem deserialize st =
     (case truthyStr userEmail of
        Some email \<Rightarrow>
          (case truthyStr (getItem (storageKey email)) of
             Some stored \<Rightarrow>
               (case deserialize stored of
                  Some parsedSessions \<Rightarrow>
                    startNewChat True (st\<lparr>sessions := sortSessions parsedSessions\<rparr>)
                | None \<Rightarrow> startNewChat True st)
           | None \<Rightarrow> startNewChat True (st\<lparr>sessions := []\<rparr>))
      | None \<Rightarrow> st\<lparr>sessions := [], messages := [], currentSessionId := None\<rparr>)"

text \<open>
  What a functional \<open>setSessions\<close> updater hands back: the very array it was given
  (\<open>Unchanged\<close>, same identity) or a new one.
\<close>

datatype 'a update = Unchanged | Replaced 'a

definition applyUpdate :: "'a update \<Rightarrow> 'a \<Rightarrow> 'a" where
  "applyUpdate u prev = (case u of Unchanged \<Rightarrow> prev | Replaced new \<Rightarrow> new)"

text \<open>The title rule of the sync effect.\<close>

definition deriveTitle :: "jsstring \<Rightarrow> Message list \<Rightarrow> jsstring" where
  "deriveTitle title msgs =
     (if title = DEFAULT_TITLE \<and> length msgs > 0 then
        (case find (\<lambda>m. m_sender m = User) msgs of
           Some firstUserMsg \<Rightarrow>
             take 30 (m_text firstUserMsg) @ (if length (m_text firstUserMsg) > 30 then ascii ''...'' else [])
         | None \<Rightarrow> title)
      else title)"

text \<open>The dirty-check of the sync effect.\<close>

definition nothingChanged :: "ChatSession \<Rightarrow> Message list \<Rightarrow> bool" where
  "nothingChanged currentSession msgs =
     (length (s_messages currentSession) = length msgs \<and>
      (case (lastElem (s_messages currentSession), lastElem msgs) of
         (Some lastSessionMsg, Some lastMsg) \<Rightarrow>
            m_id lastSessionMsg = m_id lastMsg \<and>
            m_text lastSessionMsg = m_text lastMsg \<and>
            m_isError lastSessionMsg = m_isError lastMsg \<and>
            map_option a_ref (m_attachment lastSessionMsg) = map_option a_ref (m_attachment lastMsg)
       | _ \<Rightarrow> False))"

text \<open>The updater passed to \<open>setSessions\<close> by the sync effect; \<open>now\<close> is \<open>Date.now()\<close>.\<close>

definition syncUpdater :: "jsstring \<Rightarrow> Message list \<Rightarrow> int \<Rightarrow> ChatSession list \<Rightarrow> ChatSession list update" where
  "syncUpdater sessionId msgs now prev =
     (case findIndex (\<lambda>s. s_id s = sessionId) prev of
        None \<Rightarrow> Unchanged
      | Some existingSessionIndex \<Rightarrow>
          (let currentSession = prev ! existingSessionIndex in
           if nothingChanged currentSession msgs then Unchanged
           else Replaced (sortSessions (prev[existingSessionIndex :=
                  currentSession\<lparr>s_messages := msgs,
                                 s_title := deriveTitle (s_title currentSession) msgs,
                                 s_updatedAt := now\<rparr>]))))"

text \<open>The sync effect: it calls \<open>setSessions\<close> only with a session id and a non-empty list.\<close>

definition syncEffect :: "jsstring option \<Rightarrow> Message list \<Rightarrow> int \<Rightarrow> ChatSession list \<Rightarrow> ChatSession list update" where
  "syncEffect sessionId msgs now prev =
     (case truthyStr sessionId of
        Some sid \<Rightarrow> if length msgs > 0 then syncUpdater sid msgs now prev else Unchanged
      | None \<Rightarrow> Unchanged)"

text \<open>The sync effect on the whole state, as it runs after a render.\<close>

definition runSync :: "int \<Rightarrow> hook_state \<Rightarrow> hook_state" where
  "runSync now st =
     st\<lparr>sessions := applyUpdate (syncEffect (currentSessionId st) (messages st) now (sessions st)) (sessions st)\<rparr>"

definition loadSession :: "jsstring \<Rightarrow> hook_state \<Rightarrow> hook_state" where
  "loadSession sessionId st =
     (case find (\<lambda>s. s_id s = sessionId) (sessions st) of
        Some session \<Rightarrow>
          st\<lparr>currentSessionId := Some (s_id session), messages := s_messages session, chatSessionRef := None\<rparr>
      | None \<Rightarrow> st)"

definition deleteSession :: "jsstring \<Rightarrow> hook_state \<Rightarrow> hook_state" where
  "deleteSession sessionId st =
     (let st1 = st\<lparr>sessions := filter (\<lambda>s. s_id s \<noteq> sessionId) (sessions st)\<rparr>
      in if Some sessionId = currentSessionId st then startNewChat True st1 else st1)"

text \<open>\<open>confirmed\<close> is the answer of \<open>window.confirm\<close>.\<close>

definition clearAllSessions :: "bool \<Rightarrow> hook_state \<Rightarrow> hook_state" where
  "clearAllSessions confirmed st =
     (if confirmed then startNewChat True (st\<lparr>sessions := []\<rparr>) else st)"

section \<open>The streaming turn: sendMessage\<close>

text \<open>
  The readings of \<open>Date.now()\<close> and \<open>new Date()\<close> that one call of \<open>sendMessage\<close> takes, in
  the order of the source.
\<close>

record send_clock =
  t_userMsgId :: int
  t_userStamp :: int
  t_sessionId :: int
  t_updatedAt :: int
  t_botMsgId :: int
  t_botStamp :: int
  t_errMsgId :: int
  t_errStamp :: int

text \<open>The locals that the rest of the call closes over.\<close>

record turn =
  controller :: nat
  botMsgId :: jsstring

text \<open>
  The synchronous part of \<open>sendMessage\<close>, up to the \<open>try\<close>: \<open>None\<close> is the early return on
  empty input. \<open>messages\<close> and \<open>currentSessionId\<close> of the closure are those of the state
  at the call.
\<close>

definition sendMessage_begin ::
  "send_clock \<Rightarrow> jsstring \<Rightarrow> Attachment option \<Rightarrow> bool \<Rightarrow> hook_state \<Rightarrow> (turn \<times> hook_state) option" where
  "sendMessage_begin clk text attachment isImageGen st =
     (if \<not> truthy (trim text) \<and> attachment = None then None
      else
        let ctrl = length (controllers st);
            st1 = st\<lparr>controllers := controllers st @ [False], abortControllerRef := Some ctrl\<rparr>;
            userMessage = \<lparr>m_id = toString (t_userMsgId clk), m_sender = User, m_text = text,
                           m_timestamp = t_userStamp clk, m_isError = None, m_attachment = attachment\<rparr>;
            st2 = (case truthyStr (currentSessionId st) of
                     Some activeSessionId \<Rightarrow> st1
                   | None \<Rightarrow>
                       let activeSessionId = toString (t_sessionId clk);
                           newSession = \<lparr>s_id = activeSessionId,
                                         s_title = (if truthy (take 30 text) then take 30 text else DEFAULT_TITLE),
                                         s_messages = messages st @ [userMessage],
                                         s_updatedAt = t_updatedAt clk\<rparr>
                       in st1\<lparr>currentSessionId := Some activeSessionId,
                              sessions := newSession # sessions st1\<rparr>);
            st3 = st2\<lparr>messages := messages st2 @ [userMessage], isLoading := True\<rparr>;
            botId = toString (t_botMsgId clk + 1);
            st4 = st3\<lparr>messages := messages st3 @
                     [\<lparr>m_id = botId, m_sender = Model,
                       m_text = (if isImageGen then DRAWING_CAPTION else []),
                       m_timestamp = t_botStamp clk, m_isError = None, m_attachment = None\<rparr>]\<rparr>
        in Some (\<lparr>controller = ctrl, botMsgId = botId\<rparr>, st4))"

text \<open>
  The loop over \<open>candidate.content.parts\<close>: every \<open>inlineData\<close> part makes a new attachment
  object (the last one is kept), every other part with a non-empty text is appended.
\<close>

fun collectParts :: "Part list \<Rightarrow> Attachment option \<Rightarrow> jsstring \<Rightarrow> nat \<Rightarrow> Attachment option \<times> jsstring \<times> nat" where
  "collectParts [] generatedAttachment generatedText r = (generatedAttachment, generatedText, r)"
| "collectParts (part # ps) generatedAttachment generatedText r =
     (case p_inlineData part of
        Some (mime, d) \<Rightarrow>
          collectParts ps (Some \<lparr>a_ref = r, a_mimeType = mime, a_data = d, a_fileName = None\<rparr>)
            generatedText (Suc r)
      | None \<Rightarrow>
          (case truthyStr (p_text part) of
             Some t \<Rightarrow> collectParts ps generatedAttachment (generatedText @ t) r
           | None \<Rightarrow> collectParts ps generatedAttachment generatedText r))"

definition handleImageGeneration :: "image_env \<Rightarrow> jsstring \<Rightarrow> jsstring \<Rightarrow> nat \<Rightarrow> hook_state \<Rightarrow> hook_state" where
  "handleImageGeneration env prompt botId ctrl st0 =
     (let st = (if stopWhileAwaiting env then stopGeneration st0 else st0) in
      case generateImage env prompt of
        Inr response \<Rightarrow>
          if signal_aborted st ctrl then st
          else
            (case (case response of
                     Some parts \<Rightarrow> collectParts parts None [] (nextRef st)
                   | None \<Rightarrow> (None, [], nextRef st)) of
               (generatedAttachment, generatedText, r) \<Rightarrow>
                 st\<lparr>nextRef := r,
                    messages := map (\<lambda>msg.
                      if m_id msg = botId then
                        (case generatedAttachment of
                           Some a \<Rightarrow>
                             msg\<lparr>m_text := (if truthy generatedText then generatedText else IMAGE_READY_CAPTION),
                                 m_attachment := Some a\<rparr>
                         | None \<Rightarrow> msg\<lparr>m_text := IMAGE_FAILED_CAPTION, m_isError := Some True\<rparr>)
                      else msg) (messages st)\<rparr>)
      | Inl err \<Rightarrow>
          if signal_aborted st ctrl then st
          else st\<lparr>messages := map (\<lambda>msg.
                 if m_id msg = botId then msg\<lparr>m_text := getFriendlyErrorMessage err, m_isError := Some True\<rparr>
                 else msg) (messages st)\<rparr>)"

text \<open>The first function call of a chunk, when it is \<open>generate_image\<close>.\<close>

definition imageCall :: "Chunk \<Rightarrow> FunctionCall option" where
  "imageCall chunk =
     (case c_functionCalls chunk of
        Some (call # rest) \<Rightarrow> if f_name call = ascii ''generate_image'' then Some call else None
      | _ \<Rightarrow> None)"

text \<open>\<open>c.text || ''\<close>\<close>

definition chunkText :: "Chunk \<Rightarrow> jsstring" where
  "chunkText chunk = (case c_text chunk of Some t \<Rightarrow> t | None \<Rightarrow> [])"

text \<open>
  The updater that appends a chunk's text. On an empty list \<open>prev[prev.length - 1]\<close> is
  undefined and reading its \<open>id\<close> throws, inside the updater: \<open>None\<close>.
\<close>

definition appendChunk :: "jsstring \<Rightarrow> jsstring \<Rightarrow> Message list \<Rightarrow> Message list option" where
  "appendChunk botId txt prev =
     (case lastElem prev of
        None \<Rightarrow> None
      | Some lastMsg \<Rightarrow>
          if m_id lastMsg = botId then Some (butlast prev @ [lastMsg\<lparr>m_text := m_text lastMsg @ txt\<rparr>])
          else Some prev)"

text \<open>The \<open>TypeError\<close> of reading \<open>prompt\<close> from an absent \<open>args\<close>.\<close>

definition TypeError :: js_error where
  "TypeError = \<lparr>e_name = ascii ''TypeError'', e_status = None, e_code = None, e_json = ascii ''{}''\<rparr>"

text \<open>
  How the body of the \<open>try\<close> ends: normally (the loop ran out or broke), with a thrown
  value, or with an updater that throws while React renders.
\<close>

datatype loop_exit = Completed | Threw js_error | UpdaterFault

text \<open>
  The \<open>for await\<close> loop. \<open>isFunctionCallDetected\<close> is set only on the way to the
  \<open>break\<close>, so the test before the text is appended always passes.
\<close>

fun streamLoop :: "image_env \<Rightarrow> jsstring \<Rightarrow> turn \<Rightarrow> stream_event list \<Rightarrow> js_error option \<Rightarrow> hook_state
    \<Rightarrow> loop_exit \<times> hook_state" where
  "streamLoop env text tn [] fin st = (case fin of None \<Rightarrow> (Completed, st) | Some e \<Rightarrow> (Threw e, st))"
| "streamLoop env text tn (UserStop # es) fin st = streamLoop env text tn es fin (stopGeneration st)"
| "streamLoop env text tn (Deliver chunk # es) fin st =
     (if signal_aborted st (controller tn) then (Completed, st)
      else
        (case imageCall chunk of
           Some call \<Rightarrow>
             (case f_args call of
                None \<Rightarrow> (Threw TypeError, st)
              | Some p \<Rightarrow>
                  (let prompt = (case truthyStr p of Some q \<Rightarrow> q | None \<Rightarrow> text);
                       st1 = st\<lparr>messages := map (\<lambda>msg.
                               if m_id msg = botMsgId tn then msg\<lparr>m_text := AUTO_IMAGE_CAPTION\<rparr> else msg)
                               (messages st)\<rparr>
                   in (Completed, handleImageGeneration env prompt (botMsgId tn) (controller tn) st1)))
         | None \<Rightarrow>
             (if truthy (chunkText chunk) then
                (case appendChunk (botMsgId tn) (chunkText chunk) (messages st) of
                   None \<Rightarrow> (UpdaterFault, st)
                 | Some ms \<Rightarrow> streamLoop env text tn es fin (st\<lparr>messages := ms\<rparr>))
              else streamLoop env text tn es fin st)))"

text \<open>The body of the \<open>try\<close>.\<close>

definition sendMessage_try :: "jsstring \<Rightarrow> bool \<Rightarrow> backend \<Rightarrow> turn \<Rightarrow> hook_state \<Rightarrow> loop_exit \<times> hook_state" where
  "sendMessage_try text isImageGen be tn st =
     (if isImageGen then
        (Completed, handleImageGeneration (imageEnv be) text (botMsgId tn) (controller tn) st)
      else
        let st1 = (if chatSessionRef st = None
                   then st\<lparr>chatSessionRef := Some (createChatSession (currentModel st))\<rparr> else st)
        in streamLoop (imageEnv be) text tn (events be) (streamEnd be) st1)"

definition sendMessage_catch :: "send_clock \<Rightarrow> turn \<Rightarrow> js_error \<Rightarrow> hook_state \<Rightarrow> hook_state" where
  "sendMessage_catch clk tn error st =
     (if signal_aborted st (controller tn) \<or> e_name error = ascii ''AbortError'' then st
      else st\<lparr>messages := messages st @
                 [\<lparr>m_id = toString (t_errMsgId clk), m_sender = Model,
                   m_text = getFriendlyErrorMessage error, m_timestamp = t_errStamp clk,
                   m_isError = Some True, m_attachment = None\<rparr>],
              chatSessionRef := Some (createChatSession (currentModel st))\<rparr>)"

definition sendMessage_finally :: "turn \<Rightarrow> hook_state \<Rightarrow> hook_state" where
  "sendMessage_finally tn st =
     (if abortControllerRef st = Some (controller tn)
      then st\<lparr>abortControllerRef := None, isLoading := False\<rparr> else st)"

text \<open>
  How a call of \<open>sendMessage\<close> ends: the early return, the promise resolved after
  \<open>finally\<close>, or an updater that threw in a render.
\<close>

datatype turn_result = Ignored hook_state | Settled hook_state | RenderFault hook_state

definition sendMessage ::
  "send_clock \<Rightarrow> jsstring \<Rightarrow> Attachment option \<Rightarrow> bool \<Rightarrow> backend \<Rightarrow> hook_state \<Rightarrow> turn_result" where
  "sendMessage clk text attachment isImageGen be st =
     (case sendMessage_begin clk text attachment isImageGen st of
        None \<Rightarrow> Ignored st
      | Some (tn, st1) \<Rightarrow>
          (case sendMessage_try text isImageGen be tn st1 of
             (Completed, st2) \<Rightarrow> Settled (sendMessage_finally tn st2)
           | (Threw error, st2) \<Rightarrow> Settled (sendMessage_finally tn (sendMessage_catch clk tn error st2))
           | (UpdaterFault, st2) \<Rightarrow> RenderFault st2))"

text \<open>The state a call leaves behind, however it ends.\<close>

definition resultState :: "turn_result \<Rightarrow> hook_state" where
  "resultState r = (case r of Ignored st \<Rightarrow> st | Settled st \<Rightarrow> st | RenderFault st \<Rightarrow> st)"

text \<open>The user message and the placeholder that a call appends, as the source builds them.\<close>

definition userMessageOf :: "send_clock \<Rightarrow> jsstring \<Rightarrow> Attachment option \<Rightarrow> Message" where
  "userMessageOf clk text attachment =
     \<lparr>m_id = toString (t_userMsgId clk), m_sender = User, m_text = text,
      m_timestamp = t_userStamp clk, m_isError = None, m_attachment = attachment\<rparr>"

definition placeholderOf :: "send_clock \<Rightarrow> jsstring \<Rightarrow> Message" where
  "placeholderOf clk txt =
     \<lparr>m_id = toString (t_botMsgId clk + 1), m_sender = Model, m_text = txt,
      m_timestamp = t_botStamp clk, m_isError = None, m_attachment = None\<rparr>"

text \<open>
  The text the specification expects of a finished turn: the texts of the chunks in order,
  none from the chunk that carries the \<open>generate_image\<close> call onwards.
\<close>

definition expectedText :: "Chunk list \<Rightarrow> jsstring" where
  "expectedText cs = concat (map chunkText (takeWhile (\<lambda>c. imageCall c = None) cs))"

text \<open>Descending order of \<open>updatedAt\<close>, on adjacent sessions.\<close>

definition sortedDescending :: "ChatSession list \<Rightarrow> bool" where
  "sortedDescending ss = successively (\<lambda>a b. s_updatedAt a \<ge> s_updatedAt b) ss"

section \<open>Sample values\<close>

text \<open>The state of the hook at mount.\<close>

definition initialState :: hook_state where
  "initialState = \<lparr>messages = [], sessions = [], currentSessionId = None, isLoading = False,
     currentModel = gemini_3_flash_preview, chatSessionRef = None, abortControllerRef = None,
     controllers = [], nextRef = 0\<rparr>"

text \<open>A clock that reads \<open>t\<close> while the turn starts and \<open>te\<close> in its \<open>catch\<close>.\<close>

definition clockAt :: "int \<Rightarrow> int \<Rightarrow> send_clock" where
  "clockAt t te = \<lparr>t_userMsgId = t, t_userStamp = t, t_sessionId = t, t_updatedAt = t,
     t_botMsgId = t, t_botStamp = t, t_errMsgId = te, t_errStamp = te\<rparr>"

definition textChunk :: "jsstring \<Rightarrow> Chunk" where
  "textChunk t = \<lparr>c_functionCalls = None, c_text = Some t\<rparr>"

definition imageChunk :: "jsstring \<Rightarrow> Chunk" where
  "imageChunk p = \<lparr>c_functionCalls = Some [\<lparr>f_name = ascii ''generate_image'', f_args = Some (Some p)\<rparr>],
     c_text = None\<rparr>"

text \<open>An image service that answers without parts, and one that rejects with \<open>e\<close>.\<close>

definition noImage :: image_env where
  "noImage = \<lparr>generateImage = (\<lambda>prompt. Inr None), stopWhileAwaiting = False\<rparr>"


text \<open>An image service whose request is still pending when the user presses stop.\<close>

definition stoppedImage :: image_env where
  "stoppedImage = \<lparr>generateImage = (\<lambda>prompt. Inr None), stopWhileAwaiting = True\<rparr>"


definition serverError :: js_error where
  "serverError = \<lparr>e_name = ascii ''ApiError'', e_status = Some 500, e_code = None,
     e_json = ascii ''{\"status\":500}''\<rparr>"

definition sampleSession :: "jsstring \<Rightarrow> int \<Rightarrow> ChatSession" where
  "sampleSession sid t = \<lparr>s_id = sid, s_title = ascii ''Hello'',
     s_messages = [\<lparr>m_id = sid, m_sender = User, m_text = ascii ''Hello'', m_timestamp = t,
                    m_isError = None, m_attachment = None\<rparr>],
     s_updatedAt = t\<rparr>"

text \<open>A state with a current session on display.\<close>

definition busyState :: hook_state where
  "busyState = initialState\<lparr>sessions := [sampleSession (ascii ''7'') 70],
     currentSessionId := Some (ascii ''7''),
     messages := s_messages (sampleSession (ascii ''7'') 70)\<rparr>"

definition twoSessions :: "ChatSession list" where
  "twoSessions = [sampleSession (ascii ''2'') 20, sampleSession (ascii ''1'') 10]"

definition liveMessages :: "Message list" where
  "liveMessages = s_messages (sampleSession (ascii ''1'') 10) @
     [\<lparr>m_id = ascii ''11'', m_sender = Model, m_text = ascii ''Hi'', m_timestamp = 11,
       m_isError = None, m_attachment = None\<rparr>]"

text \<open>A first message of 31 code units, an attachment, and the titles of the collection
  right after the synchronous part of \<open>sendMessage\<close> and after the sync effect that follows.\<close>

definition longText :: jsstring where
  "longText = ascii ''aaaaaaaaaaaaaaaaaaaaaaaaaaaaaaa''"

definition sampleAttachment :: Attachment where
  "sampleAttachment = \<lparr>a_ref = 0, a_mimeType = ascii ''image/png'', a_data = ascii ''AAAA'', a_fileName = None\<rparr>"

definition titlesAfterSync :: "int \<Rightarrow> (turn \<times> hook_state) option \<Rightarrow> jsstring list option" where
  "titlesAfterSync now r = map_option (\<lambda>(tn, st). map s_title (sessions (runSync now st))) r"

definition titlesAtCreation :: "(turn \<times> hook_state) option \<Rightarrow> jsstring list option" where
  "titlesAtCreation r = map_option (\<lambda>(tn, st). map s_title (sessions st)) r"

section \<open>Basic facts\<close>

lemma startNewChat_fields:
  "messages (startNewChat True st) = []"
  "currentSessionId (startNewChat b st) = None"
  "sessions (startNewChat b st) = sessions st"
  "chatSessionRef (startNewChat b st) = None"
  "abortControllerRef (startNewChat b st) = None"
  by (simp_all add: startNewChat_def Let_def)

lemma findIndex_Some:
  "findIndex P xs = Some i \<Longrightarrow> i < length xs \<and> P (xs ! i)"
proof (induction xs arbitrary: i)
  case Nil
  then show ?case by simp
next
  case (Cons x xs)
  then show ?case by (auto split: if_splits)
qed

lemma findIndex_None: "findIndex P xs = None \<longleftrightarrow> (\<forall>x\<in>set xs. \<not> P x)"
  by (induction xs) auto

lemma sortedDescending_Nil: "sortedDescending []"
  by (simp add: sortedDescending_def)

lemma sortedDescending_Cons:
  "sortedDescending (x # xs) \<longleftrightarrow>
     (case xs of [] \<Rightarrow> True | y # _ \<Rightarrow> s_updatedAt y \<le> s_updatedAt x) \<and> sortedDescending xs"
  by (cases xs) (simp_all add: sortedDescending_def)

lemma sortSessions_sorted: "sortedDescending (sortSessions xs)"
proof -
  have "sorted (map (\<lambda>s. - s_updatedAt s) (sortSessions xs))"
    by (simp add: sortSessions_def)
  then have "sorted_wrt (\<lambda>a b. s_updatedAt a \<ge> s_updatedAt b) (sortSessions xs)"
    by (simp add: sorted_map sorted_wrt_map)
  then show ?thesis
    unfolding sortedDescending_def by (rule successively_if_sorted_wrt)
qed

lemma syncEffect_no_session: "syncEffect None msgs now prev = Unchanged"
  by (simp add: syncEffect_def truthyStr_def)

lemma load_live_state:
  "messages (loadSessionsEffect userEmail getItem deserialize st) = [] \<and>
   currentSessionId (loadSessionsEffect userEmail getItem deserialize st) = None"
  by (simp add: loadSessionsEffect_def startNewChat_fields split: option.split)

section \<open>stopGeneration and deleteSession\<close>

text \<open>
  C10. In any state, with or without a turn in flight, \<open>stopGeneration\<close> leaves the loading
  flag false and does not touch the live messages, the session collection or the current
  session id. It raises the abort signal of the controller that \<open>abortControllerRef\<close> holds,
  if there is one, and leaves the reference itself as it was.
\<close>

theorem stopGeneration_frame:
  "isLoading (stopGeneration st) = False \<and>
   messages (stopGeneration st) = messages st \<and>
   sessions (stopGeneration st) = sessions st \<and>
   currentSessionId (stopGeneration st) = currentSessionId st \<and>
   abortControllerRef (stopGeneration st) = abortControllerRef st \<and>
   controllers (stopGeneration st) =
     (case abortControllerRef st of
        None \<Rightarrow> controllers st
      | Some c \<Rightarrow> (controllers st)[c := True])"
  by (simp add: stopGeneration_def split: option.split)

text \<open>
  C7. Deleting a session removes exactly the sessions with that id from the collection.
  When it is the current session, the result is the fresh conversation: no current id, no
  live messages, no chat context and no controller reference. Otherwise the live messages
  and the current id stay as they were.
\<close>

theorem deleteSession_effect:
  "sessions (deleteSession sessionId st) = filter (\<lambda>s. s_id s \<noteq> sessionId) (sessions st) \<and>
   (if currentSessionId st = Some sessionId
    then currentSessionId (deleteSession sessionId st) = None \<and>
         messages (deleteSession sessionId st) = [] \<and>
         chatSessionRef (deleteSession sessionId st) = None \<and>
         abortControllerRef (deleteSession sessionId st) = None
    else currentSessionId (deleteSession sessionId st) = currentSessionId st \<and>
         messages (deleteSession sessionId st) = messages st)"
  by (auto simp add: deleteSession_def startNewChat_def Let_def)

theorem deleteSession_effect_witness:
  "sessions (deleteSession (ascii ''1'')
      (initialState\<lparr>sessions := [sampleSession (ascii ''2'') 20, sampleSession (ascii ''1'') 10],
                    currentSessionId := Some (ascii ''1''),
                    messages := s_messages (sampleSession (ascii ''1'') 10)\<rparr>))
     = [sampleSession (ascii ''2'') 20] \<and>
   currentSessionId (deleteSession (ascii ''1'')
      (initialState\<lparr>sessions := [sampleSession (ascii ''2'') 20, sampleSession (ascii ''1'') 10],
                    currentSessionId := Some (ascii ''1''),
                    messages := s_messages (sampleSession (ascii ''1'') 10)\<rparr>)) = None \<and>
   messages (deleteSession (ascii ''1'')
      (initialState\<lparr>sessions := [sampleSession (ascii ''2'') 20, sampleSession (ascii ''1'') 10],
                    currentSessionId := Some (ascii ''1''),
                    messages := s_messages (sampleSession (ascii ''1'') 10)\<rparr>)) = [] \<and>
   messages (deleteSession (ascii ''2'')
      (initialState\<lparr>sessions := [sampleSession (ascii ''2'') 20, sampleSession (ascii ''1'') 10],
                    currentSessionId := Some (ascii ''1''),
                    messages := s_messages (sampleSession (ascii ''1'') 10)\<rparr>))
     = s_messages (sampleSession (ascii ''1'') 10)"
  using deleteSession_effect [of "ascii ''1''"
      "initialState\<lparr>sessions := [sampleSession (ascii ''2'') 20, sampleSession (ascii ''1'') 10],
                    currentSessionId := Some (ascii ''1''),
                    messages := s_messages (sampleSession (ascii ''1'') 10)\<rparr>"]
    deleteSession_effect [of "ascii ''2''"
      "initialState\<lparr>sessions := [sampleSession (ascii ''2'') 20, sampleSession (ascii ''1'') 10],
                    currentSessionId := Some (ascii ''1''),
                    messages := s_messages (sampleSession (ascii ''1'') 10)\<rparr>"]
  by (simp add: sampleSession_def ascii_def initialState_def)

section \<open>Loading the sessions of an identity\<close>

text \<open>
  C3. Whatever the state before and whatever the storage holds, the load effect of an
  identity change commits a state with an empty live message list and no current session
  id, and the sync effect that follows changes nothing. When sessions were read, the
  committed state is the reset state with the sorted new sessions put on top of it: there is
  no state in which the new sessions stand beside the old live messages.
\<close>

theorem identity_switch_resets:
  "messages (loadSessionsEffect userEmail getItem deserialize st) = [] \<and>
   currentSessionId (loadSessionsEffect userEmail getItem deserialize st) = None \<and>
   runSync now (loadSessionsEffect userEmail getItem deserialize st)
     = loadSessionsEffect userEmail getItem deserialize st \<and>
   (\<forall>email stored parsedSessions.
      truthyStr userEmail = Some email \<longrightarrow>
      truthyStr (getItem (storageKey email)) = Some stored \<longrightarrow>
      deserialize stored = Some parsedSessions \<longrightarrow>
      loadSessionsEffect userEmail getItem deserialize st
        = (startNewChat True st)\<lparr>sessions := sortSessions parsedSessions\<rparr>)"
  by (simp add: load_live_state runSync_def syncEffect_no_session applyUpdate_def)
     (simp add: loadSessionsEffect_def startNewChat_def Let_def)

theorem identity_switch_resets_witness:
  "truthyStr (Some (ascii ''b@x'')) = Some (ascii ''b@x'') \<and>
   truthyStr (Some (ascii ''[..]'')) = Some (ascii ''[..]'') \<and>
   messages busyState \<noteq> [] \<and>
   messages (loadSessionsEffect (Some (ascii ''b@x'')) (\<lambda>k. Some (ascii ''[..]''))
       (\<lambda>s. Some [sampleSession (ascii ''3'') 30, sampleSession (ascii ''4'') 40]) busyState) = [] \<and>
   currentSessionId (loadSessionsEffect (Some (ascii ''b@x'')) (\<lambda>k. Some (ascii ''[..]''))
       (\<lambda>s. Some [sampleSession (ascii ''3'') 30, sampleSession (ascii ''4'') 40]) busyState) = None \<and>
   loadSessionsEffect (Some (ascii ''b@x'')) (\<lambda>k. Some (ascii ''[..]''))
       (\<lambda>s. Some [sampleSession (ascii ''3'') 30, sampleSession (ascii ''4'') 40]) busyState
     = (startNewChat True busyState)\<lparr>sessions := [sampleSession (ascii ''4'') 40, sampleSession (ascii ''3'') 30]\<rparr>"
proof -
  have e: "truthyStr (Some (ascii ''b@x'')) = Some (ascii ''b@x'')"
    and s: "truthyStr (Some (ascii ''[..]'')) = Some (ascii ''[..]'')"
    by (simp_all add: truthyStr_def ascii_def)
  have srt: "sortSessions [sampleSession (ascii ''3'') 30, sampleSession (ascii ''4'') 40]
      = [sampleSession (ascii ''4'') 40, sampleSession (ascii ''3'') 30]"
    by (simp add: sortSessions_def sampleSession_def)
  have ne: "messages busyState \<noteq> []"
    by (simp add: busyState_def sampleSession_def initialState_def)
  show ?thesis
    using identity_switch_resets [of "Some (ascii ''b@x'')" "\<lambda>k. Some (ascii ''[..]'')"
        "\<lambda>s. Some [sampleSession (ascii ''3'') 30, sampleSession (ascii ''4'') 40]" busyState 0]
      e s srt ne
    by (simp add: startNewChat_fields)
qed

text \<open>
  C2. A load whose stored text does not deserialize must leave an empty session collection
  and a fresh conversation. The \<open>catch\<close> branch resets the conversation but never calls
  \<open>setSessions\<close>: from a state that holds a session, the collection still holds it after
  the load, while the branch for an absent item empties it.
\<close>

theorem malformed_load_keeps_sessions:
  "sessions (loadSessionsEffect (Some (ascii ''b@x'')) (\<lambda>k. Some (ascii ''{''))
       (\<lambda>s. None) busyState) = [sampleSession (ascii ''7'') 70] \<and>
   messages (loadSessionsEffect (Some (ascii ''b@x'')) (\<lambda>k. Some (ascii ''{''))
       (\<lambda>s. None) busyState) = [] \<and>
   currentSessionId (loadSessionsEffect (Some (ascii ''b@x'')) (\<lambda>k. Some (ascii ''{''))
       (\<lambda>s. None) busyState) = None \<and>
   sessions (loadSessionsEffect (Some (ascii ''b@x'')) (\<lambda>k. None)
       (\<lambda>s. None) busyState) = []"
  by (simp add: loadSessionsEffect_def truthyStr_def ascii_def startNewChat_fields busyState_def)

section \<open>Facts about the session store\<close>

lemma nothingChanged_same:
  "msgs \<noteq> [] \<Longrightarrow> s_messages s = msgs \<Longrightarrow> nothingChanged s msgs"
  by (simp add: nothingChanged_def lastElem_def)

lemma unique_by_id:
  assumes "distinct (map s_id xs)" "a \<in> set xs" "b \<in> set xs" "s_id a = s_id b"
  shows "a = b"
  using assms by (meson distinct_map inj_onD)

lemma syncUpdater_twice:
  assumes d: "distinct (map s_id prev)" and ne: "msgs \<noteq> []"
  shows "syncUpdater sid msgs now2 (applyUpdate (syncUpdater sid msgs now1 prev) prev) = Unchanged"
proof (cases "syncUpdater sid msgs now1 prev")
  case Unchanged
  then have "syncUpdater sid msgs now2 prev = Unchanged"
    by (auto simp add: syncUpdater_def Let_def split: option.splits if_splits)
  with Unchanged show ?thesis by (simp add: applyUpdate_def)
next
  case (Replaced new)
  then obtain i where i: "findIndex (\<lambda>s. s_id s = sid) prev = Some i"
    by (auto simp add: syncUpdater_def split: option.splits)
  define s' where "s' = (prev ! i)\<lparr>s_messages := msgs,
      s_title := deriveTitle (s_title (prev ! i)) msgs, s_updatedAt := now1\<rparr>"
  from i have ilen: "i < length prev" and iid: "s_id (prev ! i) = sid"
    using findIndex_Some[of "\<lambda>s. s_id s = sid" prev i] by simp_all
  from Replaced i have new: "new = sortSessions (prev[i := s'])"
    by (auto simp add: syncUpdater_def Let_def s'_def split: if_splits)
  have ids: "map s_id (prev[i := s']) = map s_id prev"
    using ilen by (simp add: map_update s'_def list_update_same_conv)
  have dnew: "distinct (map s_id new)"
  proof -
    have "distinct (map s_id (prev[i := s']))"
      using d ids by simp
    then show ?thesis
      by (simp add: distinct_map new sortSessions_def)
  qed
  have s'new: "s' \<in> set new"
    using ilen by (simp add: new sortSessions_def set_update_memI)
  have s'id: "s_id s' = sid" by (simp add: s'_def iid)
  obtain j where j: "findIndex (\<lambda>s. s_id s = sid) new = Some j"
    using s'new s'id findIndex_None[of "\<lambda>s. s_id s = sid" new] by (cases "findIndex (\<lambda>s. s_id s = sid) new") auto
  then have "j < length new" "s_id (new ! j) = sid"
    using findIndex_Some[of "\<lambda>s. s_id s = sid" new j] by simp_all
  then have "new ! j = s'"
    using unique_by_id[OF dnew _ s'new] s'id by simp
  then have "nothingChanged (new ! j) msgs"
    using ne by (simp add: nothingChanged_same s'_def)
  then show ?thesis
    using Replaced j by (simp add: applyUpdate_def syncUpdater_def)
qed

lemma begin_sessions:
  "sendMessage_begin clk text att img st = Some (tn, st') \<Longrightarrow>
   sessions st' = (case truthyStr (currentSessionId st) of
        Some activeSessionId \<Rightarrow> sessions st
      | None \<Rightarrow> \<lparr>s_id = toString (t_sessionId clk),
                  s_title = (if truthy (take 30 text) then take 30 text else DEFAULT_TITLE),
                  s_messages = messages st @ [userMessageOf clk text att],
                  s_updatedAt = t_updatedAt clk\<rparr> # sessions st)"
  by (auto simp add: sendMessage_begin_def Let_def userMessageOf_def split: if_splits option.splits)

lemma syncEffect_Replaced_sorted:
  "syncEffect sessionId msgs now prev = Replaced new \<Longrightarrow> sortedDescending new"
  by (auto simp add: syncEffect_def syncUpdater_def Let_def sortSessions_sorted
      split: option.splits if_splits)

lemma runSync_sorted:
  "sortedDescending (sessions st) \<Longrightarrow> sortedDescending (sessions (runSync now st))"
  by (cases "syncEffect (currentSessionId st) (messages st) now (sessions st)")
     (simp_all add: runSync_def applyUpdate_def syncEffect_Replaced_sorted)

lemma load_sorted:
  "sortedDescending (sessions st) \<Longrightarrow>
   sortedDescending (sessions (loadSessionsEffect userEmail getItem deserialize st))"
  by (auto simp add: loadSessionsEffect_def startNewChat_fields sortSessions_sorted
      sortedDescending_Nil split: option.split)

lemma load_parsed_sorted:
  "truthyStr userEmail = Some email \<Longrightarrow> truthyStr (getItem (storageKey email)) = Some stored \<Longrightarrow>
   deserialize stored = Some parsed \<Longrightarrow>
   sortedDescending (sessions (loadSessionsEffect userEmail getItem deserialize st))"
  by (simp add: loadSessionsEffect_def startNewChat_fields sortSessions_sorted)

lemma create_sorted:
  "sortedDescending (sessions st) \<Longrightarrow> \<forall>s\<in>set (sessions st). s_updatedAt s \<le> t_updatedAt clk \<Longrightarrow>
   sendMessage_begin clk text att img st = Some (tn, st') \<Longrightarrow> sortedDescending (sessions st')"
  by (auto simp add: begin_sessions sortedDescending_Cons split: option.split list.split)

section \<open>Facts about the streaming turn\<close>

lemma begin_Some:
  assumes "truthy (trim text) \<or> att \<noteq> None"
  shows "\<exists>st1. sendMessage_begin clk text att img st
            = Some (\<lparr>controller = length (controllers st), botMsgId = toString (t_botMsgId clk + 1)\<rparr>, st1) \<and>
          messages st1 = messages st @ [userMessageOf clk text att,
                                        placeholderOf clk (if img then DRAWING_CAPTION else [])] \<and>
          abortControllerRef st1 = Some (length (controllers st)) \<and>
          controllers st1 = controllers st @ [False] \<and>
          isLoading st1 = True \<and>
          chatSessionRef st1 = chatSessionRef st \<and>
          currentModel st1 = currentModel st"
  using assms
  by (auto simp add: sendMessage_begin_def Let_def userMessageOf_def placeholderOf_def split: option.split)

lemma appendChunk_last:
  "m_id b = botId \<Longrightarrow> appendChunk botId txt (pre @ [b]) = Some (pre @ [b\<lparr>m_text := m_text b @ txt\<rparr>])"
  by (simp add: appendChunk_def lastElem_def)

lemma signal_aborted_messages [simp]:
  "signal_aborted (st\<lparr>messages := ms\<rparr>) c = signal_aborted st c"
  by (simp add: signal_aborted_def)

lemma streamLoop_plain:
  assumes "\<forall>c\<in>set cs. imageCall c = None"
      and "\<not> signal_aborted st (controller tn)"
      and "messages st = pre @ [b]"
      and "m_id b = botMsgId tn"
  shows "streamLoop env text tn (map Deliver cs @ es) fin st
           = streamLoop env text tn es fin
               (st\<lparr>messages := pre @ [b\<lparr>m_text := m_text b @ concat (map chunkText cs)\<rparr>]\<rparr>)"
  using assms
proof (induction cs arbitrary: st b)
  case Nil
  then have "st\<lparr>messages := pre @ [b\<lparr>m_text := m_text b\<rparr>]\<rparr> = st" by simp
  then show ?case by simp
next
  case (Cons c cs)
  let ?b' = "b\<lparr>m_text := m_text b @ chunkText c\<rparr>"
  let ?st' = "st\<lparr>messages := pre @ [?b']\<rparr>"
  have step: "streamLoop env text tn (Deliver c # (map Deliver cs @ es)) fin st
                = streamLoop env text tn (map Deliver cs @ es) fin ?st'"
  proof (cases "truthy (chunkText c)")
    case True
    with Cons.prems show ?thesis by (simp add: appendChunk_last)
  next
    case False
    then have "chunkText c = []" by (simp add: truthy_def)
    then have "?st' = st" using Cons.prems by simp
    with False Cons.prems show ?thesis by simp
  qed
  have "streamLoop env text tn (map Deliver cs @ es) fin ?st'
          = streamLoop env text tn es fin
              (?st'\<lparr>messages := pre @ [?b'\<lparr>m_text := m_text ?b' @ concat (map chunkText cs)\<rparr>]\<rparr>)"
    using Cons.prems by (intro Cons.IH) simp_all
  with step show ?case by simp
qed

lemma stopGeneration_fixed:
  assumes "signal_aborted st c" "abortControllerRef st = Some c" "\<not> isLoading st"
  shows "stopGeneration st = st"
  using assms by (simp add: stopGeneration_def signal_aborted_def list_update_same_conv)

lemma streamLoop_aborted:
  assumes "signal_aborted st (controller tn)" "abortControllerRef st = Some (controller tn)" "\<not> isLoading st"
  shows "streamLoop env text tn es fin st = (Completed, st) \<or>
         (\<exists>e. fin = Some e \<and> streamLoop env text tn es fin st = (Threw e, st))"
  using assms
proof (induction es)
  case Nil
  then show ?case by (cases fin) simp_all
next
  case (Cons ev es)
  then show ?case by (cases ev) (simp_all add: stopGeneration_fixed)
qed

lemma stopGeneration_aborts:
  assumes "abortControllerRef st = Some c" "c < length (controllers st)"
  shows "signal_aborted (stopGeneration st) c \<and> abortControllerRef (stopGeneration st) = Some c \<and>
         \<not> isLoading (stopGeneration st) \<and> messages (stopGeneration st) = messages st"
  using assms by (simp add: stopGeneration_def signal_aborted_def)

lemma finally_active:
  "abortControllerRef st = Some (controller tn) \<Longrightarrow>
   isLoading (sendMessage_finally tn st) = False \<and> messages (sendMessage_finally tn st) = messages st"
  by (simp add: sendMessage_finally_def)

lemma catch_aborted:
  "signal_aborted st (controller tn) \<Longrightarrow> sendMessage_catch clk tn e st = st"
  by (simp add: sendMessage_catch_def)

lemma sync_example:
  "syncEffect (Some (ascii ''1'')) liveMessages 30 twoSessions
   = Replaced [(sampleSession (ascii ''1'') 10)\<lparr>s_messages := liveMessages, s_updatedAt := 30\<rparr>,
               sampleSession (ascii ''2'') 20]"
  by (simp add: syncEffect_def syncUpdater_def truthyStr_def twoSessions_def liveMessages_def
      sampleSession_def ascii_def nothingChanged_def lastElem_def deriveTitle_def DEFAULT_TITLE_def
      sortSessions_def)

lemma stream_turn_prefix:
  assumes valid: "truthy (trim text) \<or> attachment \<noteq> None"
      and plain: "\<forall>c\<in>set cs. imageCall c = None"
  shows "\<exists>tn st1 st3. sendMessage_begin clk text attachment False st = Some (tn, st1) \<and>
           (\<forall>env es fin. sendMessage_try text False
                \<lparr>imageEnv = env, events = map Deliver cs @ es, streamEnd = fin\<rparr> tn st1
              = streamLoop env text tn es fin st3) \<and>
           messages st3 = messages st @ [userMessageOf clk text attachment,
                                         placeholderOf clk (concat (map chunkText cs))] \<and>
           abortControllerRef st3 = Some (controller tn) \<and>
           \<not> signal_aborted st3 (controller tn) \<and>
           currentModel st3 = currentModel st"
proof -
  define tn where "tn = \<lparr>controller = length (controllers st), botMsgId = toString (t_botMsgId clk + 1)\<rparr>"
  from begin_Some[OF valid, of clk False st] obtain st1 where
    b: "sendMessage_begin clk text attachment False st = Some (tn, st1)"
    and m1: "messages st1 = messages st @ [userMessageOf clk text attachment, placeholderOf clk []]"
    and r1: "abortControllerRef st1 = Some (length (controllers st))"
    and c1: "controllers st1 = controllers st @ [False]"
    and cm1: "currentModel st1 = currentModel st"
    unfolding tn_def by auto
  define st2 where "st2 = (if chatSessionRef st1 = None
       then st1\<lparr>chatSessionRef := Some (createChatSession (currentModel st1))\<rparr> else st1)"
  have m2: "messages st2 = (messages st @ [userMessageOf clk text attachment]) @ [placeholderOf clk []]"
    and r2: "abortControllerRef st2 = Some (controller tn)"
    and c2: "controllers st2 = controllers st @ [False]"
    and cm2: "currentModel st2 = currentModel st"
    using m1 r1 c1 cm1 by (simp_all add: st2_def tn_def)
  have na: "\<not> signal_aborted st2 (controller tn)"
    using c2 by (simp add: signal_aborted_def tn_def)
  have bid: "m_id (placeholderOf clk []) = botMsgId tn"
    by (simp add: placeholderOf_def tn_def)
  define st3 where "st3 = st2\<lparr>messages := (messages st @ [userMessageOf clk text attachment]) @
      [(placeholderOf clk [])\<lparr>m_text := m_text (placeholderOf clk []) @ concat (map chunkText cs)\<rparr>]\<rparr>"
  have loop: "sendMessage_try text False
                \<lparr>imageEnv = env, events = map Deliver cs @ es, streamEnd = fin\<rparr> tn st1
              = streamLoop env text tn es fin st3" for env es fin
    using streamLoop_plain[OF plain na m2 bid, of env "text" es fin]
    by (simp add: sendMessage_try_def st2_def st3_def)
  have m3: "messages st3 = messages st @ [userMessageOf clk text attachment,
                                             placeholderOf clk (concat (map chunkText cs))]"
    by (simp add: st3_def placeholderOf_def)
  have r3: "abortControllerRef st3 = Some (controller tn)"
    and na3: "\<not> signal_aborted st3 (controller tn)"
    and cm3: "currentModel st3 = currentModel st"
    using r2 na cm2 by (simp_all add: st3_def)
  from b loop m3 r3 na3 cm3 show ?thesis by blast
qed

lemma streamLoop_call_after_plain:
  assumes plain: "\<forall>c\<in>set pre. imageCall c = None"
      and na: "\<not> signal_aborted st (controller tn)"
      and ms: "messages st = ms @ [b]"
      and bid: "m_id b = botMsgId tn"
      and call: "imageCall tc = Some call" "f_args call = Some p"
  shows "streamLoop env text tn (map Deliver pre @ Deliver tc # es) fin st
           = streamLoop env text tn [Deliver tc] None st"
proof -
  let ?st' = "st\<lparr>messages := ms @ [b\<lparr>m_text := m_text b @ concat (map chunkText pre)\<rparr>]\<rparr>"
  have "streamLoop env text tn (map Deliver pre @ Deliver tc # es) fin st
          = streamLoop env text tn (Deliver tc # es) fin ?st'"
    by (rule streamLoop_plain[OF plain na ms bid])
  also have "\<dots> = streamLoop env text tn [Deliver tc] None st"
    using na ms bid call by (simp add: Let_def)
  finally show ?thesis .
qed

lemma sendMessage_call_after_plain:
  assumes plain: "\<forall>c\<in>set pre. imageCall c = None"
      and call: "imageCall tc = Some call" "f_args call = Some p"
  shows "sendMessage clk text attachment False
           \<lparr>imageEnv = env, events = map Deliver (pre @ tc # post), streamEnd = fin\<rparr> st
         = sendMessage clk text attachment False
           \<lparr>imageEnv = env, events = [Deliver tc], streamEnd = None\<rparr> st"
proof (cases "sendMessage_begin clk text attachment False st")
  case None
  then show ?thesis by (simp add: sendMessage_def)
next
  case (Some r)
  obtain tn st1 where r: "r = (tn, st1)" by (cases r)
  from Some r have valid: "truthy (trim text) \<or> attachment \<noteq> None"
    by (auto simp add: sendMessage_begin_def split: if_splits)
  from begin_Some[OF valid, of clk False st] Some r
  have tn: "tn = \<lparr>controller = length (controllers st), botMsgId = toString (t_botMsgId clk + 1)\<rparr>"
    and m1: "messages st1 = (messages st @ [userMessageOf clk text attachment]) @ [placeholderOf clk []]"
    and c1: "controllers st1 = controllers st @ [False]"
    by auto
  define st2 where "st2 = (if chatSessionRef st1 = None
       then st1\<lparr>chatSessionRef := Some (createChatSession (currentModel st1))\<rparr> else st1)"
  have m2: "messages st2 = (messages st @ [userMessageOf clk text attachment]) @ [placeholderOf clk []]"
    and c2: "controllers st2 = controllers st @ [False]"
    using m1 c1 by (simp_all add: st2_def)
  have na: "\<not> signal_aborted st2 (controller tn)"
    using c2 by (simp add: signal_aborted_def tn)
  have bid: "m_id (placeholderOf clk []) = botMsgId tn"
    by (simp add: placeholderOf_def tn)
  have "streamLoop env text tn (map Deliver (pre @ tc # post)) fin st2
          = streamLoop env text tn [Deliver tc] None st2"
    using streamLoop_call_after_plain[OF plain na m2 bid call, of env "text" "map Deliver post" fin]
    by simp
  then show ?thesis
    using Some r by (simp add: sendMessage_def sendMessage_try_def st2_def)
qed

lemma hello_valid: "truthy (trim (ascii ''Hello'')) \<or> (None :: Attachment option) \<noteq> None"
  by (simp add: truthy_def trim_def ascii_def isWhiteSpace_def)

lemma tool_call_run:
  "sendMessage (clockAt 100 200) (ascii ''Hello'') None False
      \<lparr>imageEnv = noImage, events = [Deliver (imageChunk (ascii ''cat''))], streamEnd = None\<rparr> initialState
   = Settled (initialState\<lparr>
        messages := [userMessageOf (clockAt 100 200) (ascii ''Hello'') None,
                     (placeholderOf (clockAt 100 200) IMAGE_FAILED_CAPTION)\<lparr>m_isError := Some True\<rparr>],
        sessions := [\<lparr>s_id = toString 100, s_title = ascii ''Hello'',
                      s_messages = [userMessageOf (clockAt 100 200) (ascii ''Hello'') None],
                      s_updatedAt = 100\<rparr>],
        currentSessionId := Some (toString 100),
        chatSessionRef := Some (Chat gemini_3_flash_preview),
        controllers := [False]\<rparr>)"
  using hello_valid
  by (simp add: sendMessage_def sendMessage_begin_def sendMessage_try_def sendMessage_finally_def
      Let_def initialState_def clockAt_def truthyStr_def imageChunk_def imageCall_def
      handleImageGeneration_def noImage_def signal_aborted_def userMessageOf_def placeholderOf_def
      createChatSession_def)
     (simp add: ascii_def truthy_def toString_def decimal.simps)

section \<open>Order of the session collection\<close>

text \<open>
  C9. The collection is kept in descending order of \<open>updatedAt\<close>. A load that reads
  sessions and a sync that replaces the array produce a sorted collection whatever came
  before. From a sorted collection, every load and every sync leave it sorted, and so does
  the creation of a session, which puts the new session in front, when the clock reading
  it stores is not below any stored \<open>updatedAt\<close>.
\<close>

theorem sessions_kept_sorted:
  "(truthyStr userEmail = Some email \<longrightarrow> truthyStr (getItem (storageKey email)) = Some stored \<longrightarrow>
      deserialize stored = Some parsed \<longrightarrow>
      sortedDescending (sessions (loadSessionsEffect userEmail getItem deserialize st))) \<and>
   (syncEffect sessionId msgs now prev = Replaced new \<longrightarrow> sortedDescending new) \<and>
   (sortedDescending (sessions st) \<longrightarrow>
      sortedDescending (sessions (loadSessionsEffect userEmail getItem deserialize st)) \<and>
      sortedDescending (sessions (runSync now st)) \<and>
      ((\<forall>s\<in>set (sessions st). s_updatedAt s \<le> t_updatedAt clk) \<longrightarrow>
         sendMessage_begin clk text att img st = Some (tn, st') \<longrightarrow>
         sortedDescending (sessions st')))"
proof (intro conjI impI)
  assume "truthyStr userEmail = Some email" "truthyStr (getItem (storageKey email)) = Some stored"
    "deserialize stored = Some parsed"
  then show "sortedDescending (sessions (loadSessionsEffect userEmail getItem deserialize st))"
    by (rule load_parsed_sorted)
next
  assume "syncEffect sessionId msgs now prev = Replaced new"
  then show "sortedDescending new" by (rule syncEffect_Replaced_sorted)
next
  assume "sortedDescending (sessions st)"
  then show "sortedDescending (sessions (loadSessionsEffect userEmail getItem deserialize st))"
    by (rule load_sorted)
next
  assume "sortedDescending (sessions st)"
  then show "sortedDescending (sessions (runSync now st))" by (rule runSync_sorted)
next
  assume "sortedDescending (sessions st)" "\<forall>s\<in>set (sessions st). s_updatedAt s \<le> t_updatedAt clk"
    "sendMessage_begin clk text att img st = Some (tn, st')"
  then show "sortedDescending (sessions st')" by (rule create_sorted)
qed

theorem sessions_kept_sorted_witness:
  "sortedDescending twoSessions \<and>
   sortedDescending (sessions (loadSessionsEffect (Some (ascii ''b@x'')) (\<lambda>k. Some (ascii ''[..]''))
       (\<lambda>s. Some [sampleSession (ascii ''3'') 30, sampleSession (ascii ''4'') 40])
       (initialState\<lparr>sessions := twoSessions\<rparr>))) \<and>
   sortedDescending (sessions (runSync 30 (initialState\<lparr>sessions := twoSessions\<rparr>))) \<and>
   (\<exists>tn st'. sendMessage_begin (clockAt 100 200) (ascii ''Hello'') None False
                 (initialState\<lparr>sessions := twoSessions\<rparr>) = Some (tn, st') \<and>
              sortedDescending (sessions st'))"
proof -
  let ?st = "initialState\<lparr>sessions := twoSessions\<rparr>"
  have srt: "sortedDescending (sessions ?st)"
    by (simp add: sortedDescending_def twoSessions_def sampleSession_def)
  have le: "\<forall>s\<in>set (sessions ?st). s_updatedAt s \<le> t_updatedAt (clockAt 100 200)"
    by (simp add: twoSessions_def sampleSession_def clockAt_def)
  have "truthy (trim (ascii ''Hello'')) \<or> (None :: Attachment option) \<noteq> None"
    by (simp add: truthy_def trim_def ascii_def isWhiteSpace_def)
  from begin_Some [OF this, of "clockAt 100 200" False ?st]
  obtain tn st' where b: "sendMessage_begin (clockAt 100 200) (ascii ''Hello'') None False ?st = Some (tn, st')"
    by blast
  note t = sessions_kept_sorted [of _ _ _ _ _ _ ?st _ _ _ _ _ "clockAt 100 200" "ascii ''Hello''" None False tn st']
  from t srt le b have c: "sortedDescending (sessions st')" by blast
  from sessions_kept_sorted [where st = ?st] srt
  have l: "sortedDescending (sessions (loadSessionsEffect (Some (ascii ''b@x'')) (\<lambda>k. Some (ascii ''[..]''))
       (\<lambda>s. Some [sampleSession (ascii ''3'') 30, sampleSession (ascii ''4'') 40]) ?st))"
    and r: "sortedDescending (sessions (runSync 30 ?st))"
    by blast+
  from srt l r b c show ?thesis by auto
qed

section \<open>Idempotence of the sync\<close>

text \<open>
  C6. When the session ids of the collection are distinct, a second sync with the same
  current id and the same live messages hands back the array it was given: the collection,
  its identity and every \<open>updatedAt\<close> stay as the first sync left them.
\<close>

theorem sync_idempotent:
  assumes "distinct (map s_id prev)"
  shows "syncEffect sessionId msgs now2 (applyUpdate (syncEffect sessionId msgs now1 prev) prev) = Unchanged"
  using assms syncUpdater_twice
  by (auto simp add: syncEffect_def applyUpdate_def split: option.split)

theorem sync_idempotent_witness:
  "distinct (map s_id twoSessions) \<and>
   applyUpdate (syncEffect (Some (ascii ''1'')) liveMessages 30 twoSessions) twoSessions
     = [(sampleSession (ascii ''1'') 10)\<lparr>s_messages := liveMessages, s_updatedAt := 30\<rparr>,
        sampleSession (ascii ''2'') 20] \<and>
   syncEffect (Some (ascii ''1'')) liveMessages 40
     [(sampleSession (ascii ''1'') 10)\<lparr>s_messages := liveMessages, s_updatedAt := 30\<rparr>,
      sampleSession (ascii ''2'') 20] = Unchanged"
proof -
  have d: "distinct (map s_id twoSessions)"
    by (simp add: twoSessions_def sampleSession_def ascii_def)
  from sync_idempotent [OF d, of "Some (ascii ''1'')" liveMessages 40 30] d
  show ?thesis by (simp add: sync_example applyUpdate_def)
qed

section \<open>Cancelling a streaming turn\<close>

lemma handleImageGeneration_stopped:
  assumes "stopWhileAwaiting env" "abortControllerRef st = Some c" "c < length (controllers st)"
  shows "handleImageGeneration env prompt botId c st = stopGeneration st"
proof -
  have "signal_aborted (stopGeneration st) c"
    using stopGeneration_aborts[OF assms(2,3)] by simp
  with assms(1) show ?thesis
    by (cases "generateImage env prompt") (simp_all add: handleImageGeneration_def)
qed

lemma stream_turn_prefix_ctrl:
  assumes valid: "truthy (trim text) \<or> attachment \<noteq> None"
      and plain: "\<forall>c\<in>set cs. imageCall c = None"
  shows "\<exists>tn st1 st3. sendMessage_begin clk text attachment False st = Some (tn, st1) \<and>
           (\<forall>env es fin. sendMessage_try text False
                \<lparr>imageEnv = env, events = map Deliver cs @ es, streamEnd = fin\<rparr> tn st1
              = streamLoop env text tn es fin st3) \<and>
           messages st3 = messages st @ [userMessageOf clk text attachment,
                                         placeholderOf clk (concat (map chunkText cs))] \<and>
           abortControllerRef st3 = Some (controller tn) \<and>
           controller tn < length (controllers st3) \<and>
           \<not> signal_aborted st3 (controller tn) \<and>
           botMsgId tn = toString (t_botMsgId clk + 1)"
proof -
  define tn where "tn = \<lparr>controller = length (controllers st), botMsgId = toString (t_botMsgId clk + 1)\<rparr>"
  from begin_Some[OF valid, of clk False st] obtain st1 where
    b: "sendMessage_begin clk text attachment False st = Some (tn, st1)"
    and m1: "messages st1 = messages st @ [userMessageOf clk text attachment, placeholderOf clk []]"
    and r1: "abortControllerRef st1 = Some (length (controllers st))"
    and c1: "controllers st1 = controllers st @ [False]"
    unfolding tn_def by auto
  define st2 where "st2 = (if chatSessionRef st1 = None
       then st1\<lparr>chatSessionRef := Some (createChatSession (currentModel st1))\<rparr> else st1)"
  have m2: "messages st2 = (messages st @ [userMessageOf clk text attachment]) @ [placeholderOf clk []]"
    and r2: "abortControllerRef st2 = Some (controller tn)"
    and c2: "controllers st2 = controllers st @ [False]"
    using m1 r1 c1 by (simp_all add: st2_def tn_def)
  have na: "\<not> signal_aborted st2 (controller tn)"
    using c2 by (simp add: signal_aborted_def tn_def)
  have bid: "m_id (placeholderOf clk []) = botMsgId tn"
    by (simp add: placeholderOf_def tn_def)
  define st3 where "st3 = st2\<lparr>messages := (messages st @ [userMessageOf clk text attachment]) @
      [(placeholderOf clk [])\<lparr>m_text := m_text (placeholderOf clk []) @ concat (map chunkText cs)\<rparr>]\<rparr>"
  have loop: "sendMessage_try text False
                \<lparr>imageEnv = env, events = map Deliver cs @ es, streamEnd = fin\<rparr> tn st1
              = streamLoop env text tn es fin st3" for env es fin
    using streamLoop_plain[OF plain na m2 bid, of env "text" es fin]
    by (simp add: sendMessage_try_def st2_def st3_def)
  have m3: "messages st3 = messages st @ [userMessageOf clk text attachment,
                                             placeholderOf clk (concat (map chunkText cs))]"
    by (simp add: st3_def placeholderOf_def)
  have r3: "abortControllerRef st3 = Some (controller tn)"
    and c3: "controller tn < length (controllers st3)"
    and na3: "\<not> signal_aborted st3 (controller tn)"
    and b3: "botMsgId tn = toString (t_botMsgId clk + 1)"
    using r2 na c2 by (simp_all add: st3_def tn_def)
  from b loop m3 r3 c3 na3 b3 show ?thesis by blast
qed

lemma stop_during_image_request:
  assumes valid: "truthy (trim text) \<or> attachment \<noteq> None"
      and plain: "\<forall>c\<in>set cs. imageCall c = None"
      and call: "imageCall tc = Some call" "f_args call = Some p"
      and stop: "stopWhileAwaiting env"
  shows "\<exists>st'. sendMessage clk text attachment False
                 \<lparr>imageEnv = env, events = map Deliver cs @ Deliver tc # rest, streamEnd = fin\<rparr> st = Settled st' \<and>
               messages st' =
                 map (\<lambda>msg. if m_id msg = toString (t_botMsgId clk + 1)
                            then msg\<lparr>m_text := AUTO_IMAGE_CAPTION\<rparr> else msg)
                   (messages st @ [userMessageOf clk text attachment,
                                   placeholderOf clk (concat (map chunkText cs))]) \<and>
               last (messages st') = placeholderOf clk AUTO_IMAGE_CAPTION \<and>
               isLoading st' = False"
proof -
  from stream_turn_prefix_ctrl[OF valid plain, of clk st] obtain tn st1 st3 where
    b: "sendMessage_begin clk text attachment False st = Some (tn, st1)"
    and loop: "\<And>env es fin. sendMessage_try text False
                \<lparr>imageEnv = env, events = map Deliver cs @ es, streamEnd = fin\<rparr> tn st1
              = streamLoop env text tn es fin st3"
    and m3: "messages st3 = messages st @ [userMessageOf clk text attachment,
                                           placeholderOf clk (concat (map chunkText cs))]"
    and r3: "abortControllerRef st3 = Some (controller tn)"
    and c3: "controller tn < length (controllers st3)"
    and na3: "\<not> signal_aborted st3 (controller tn)"
    and b3: "botMsgId tn = toString (t_botMsgId clk + 1)"
    by blast
  define f :: "Message \<Rightarrow> Message" where
    "f = (\<lambda>msg. if m_id msg = toString (t_botMsgId clk + 1)
                 then msg\<lparr>m_text := AUTO_IMAGE_CAPTION\<rparr> else msg)"
  let ?st4 = "st3\<lparr>messages := map f (messages st3)\<rparr>"
  have r4: "abortControllerRef ?st4 = Some (controller tn)"
    and c4: "controller tn < length (controllers ?st4)"
    using r3 c3 by simp_all
  have h: "handleImageGeneration env q (botMsgId tn) (controller tn) ?st4 = stopGeneration ?st4" for q
    by (rule handleImageGeneration_stopped[OF stop r4 c4])
  have "streamLoop env text tn (Deliver tc # rest) fin st3 = (Completed, stopGeneration ?st4)"
    using na3 call h by (simp add: Let_def b3 f_def)
  with loop[of env "Deliver tc # rest" fin] b
  have run: "sendMessage clk text attachment False
          \<lparr>imageEnv = env, events = map Deliver cs @ Deliver tc # rest, streamEnd = fin\<rparr> st
        = Settled (sendMessage_finally tn (stopGeneration ?st4))"
    by (simp add: sendMessage_def)
  note s = stopGeneration_aborts[OF r4 c4]
  from s have r5: "abortControllerRef (stopGeneration ?st4) = Some (controller tn)" by simp
  have ms: "messages (sendMessage_finally tn (stopGeneration ?st4)) = map f (messages st3)"
    using finally_active[OF r5] s by simp
  have l: "last (map f (messages st3)) = placeholderOf clk AUTO_IMAGE_CAPTION"
    by (simp add: m3 f_def placeholderOf_def)
  have il: "isLoading (sendMessage_finally tn (stopGeneration ?st4)) = False"
    using finally_active[OF r5] by simp
  from run ms l il show ?thesis
    unfolding f_def m3 by simp
qed

lemma stop_between_chunks:
  assumes valid: "truthy (trim text) \<or> attachment \<noteq> None"
      and plain: "\<forall>c\<in>set cs. imageCall c = None"
  shows "\<exists>st'. sendMessage clk text attachment False
                 \<lparr>imageEnv = env, events = map Deliver cs @ UserStop # rest, streamEnd = fin\<rparr> st = Settled st' \<and>
               messages st' = messages st @ [userMessageOf clk text attachment,
                                             placeholderOf clk (concat (map chunkText cs))] \<and>
               isLoading st' = False"
proof -
  define tn where "tn = \<lparr>controller = length (controllers st), botMsgId = toString (t_botMsgId clk + 1)\<rparr>"
  from begin_Some[OF valid, of clk False st] obtain st1 where
    b: "sendMessage_begin clk text attachment False st = Some (tn, st1)"
    and m1: "messages st1 = messages st @ [userMessageOf clk text attachment, placeholderOf clk []]"
    and r1: "abortControllerRef st1 = Some (length (controllers st))"
    and c1: "controllers st1 = controllers st @ [False]"
    unfolding tn_def by auto
  define st2 where "st2 = (if chatSessionRef st1 = None
       then st1\<lparr>chatSessionRef := Some (createChatSession (currentModel st1))\<rparr> else st1)"
  have m2: "messages st2 = (messages st @ [userMessageOf clk text attachment]) @ [placeholderOf clk []]"
    and r2: "abortControllerRef st2 = Some (controller tn)"
    and c2: "controllers st2 = controllers st @ [False]"
    using m1 r1 c1 by (simp_all add: st2_def tn_def)
  have na: "\<not> signal_aborted st2 (controller tn)"
    using c2 by (simp add: signal_aborted_def tn_def)
  define st3 where "st3 = st2\<lparr>messages := (messages st @ [userMessageOf clk text attachment]) @
      [(placeholderOf clk [])\<lparr>m_text := m_text (placeholderOf clk []) @ concat (map chunkText cs)\<rparr>]\<rparr>"
  have loop: "streamLoop env text tn (map Deliver cs @ UserStop # rest) fin st2
        = streamLoop env text tn rest fin (stopGeneration st3)"
    using streamLoop_plain[OF plain na m2, of env "text" "UserStop # rest" fin]
    by (simp add: st3_def placeholderOf_def tn_def)
  have r3: "abortControllerRef st3 = Some (controller tn)" and c3: "controller tn < length (controllers st3)"
    using r2 c2 by (simp_all add: st3_def tn_def)
  note s = stopGeneration_aborts[OF r3 c3]
  have m3: "messages st3 = messages st @ [userMessageOf clk text attachment,
                                             placeholderOf clk (concat (map chunkText cs))]"
    by (simp add: st3_def placeholderOf_def)
  from streamLoop_aborted[of "stopGeneration st3" tn env "text" rest fin] s
  consider "streamLoop env text tn rest fin (stopGeneration st3) = (Completed, stopGeneration st3)"
    | e where "streamLoop env text tn rest fin (stopGeneration st3) = (Threw e, stopGeneration st3)"
    by blast
  then show ?thesis
  proof cases
    case 1
    then have "sendMessage clk text attachment False
                 \<lparr>imageEnv = env, events = map Deliver cs @ UserStop # rest, streamEnd = fin\<rparr> st
               = Settled (sendMessage_finally tn (stopGeneration st3))"
      using b loop by (simp add: sendMessage_def sendMessage_try_def st2_def)
    then show ?thesis using finally_active[of "stopGeneration st3" tn] s m3 by simp
  next
    case 2
    then have "sendMessage clk text attachment False
                 \<lparr>imageEnv = env, events = map Deliver cs @ UserStop # rest, streamEnd = fin\<rparr> st
               = Settled (sendMessage_finally tn (stopGeneration st3))"
      using b loop s by (simp add: sendMessage_def sendMessage_try_def st2_def catch_aborted)
    then show ?thesis using finally_active[of "stopGeneration st3" tn] s m3 by simp
  qed
qed

lemma imageChunk_call:
  "imageCall (imageChunk p) = Some \<lparr>f_name = ascii ''generate_image'', f_args = Some (Some p)\<rparr>"
  by (simp add: imageCall_def imageChunk_def)

text \<open>
  C4, as the specification states it, fails: a chunk with a \<open>generate_image\<close> call that
  arrives before the stop replaces the text already appended. After the chunk "Hi" and the
  call, with stop pressed while the image request is pending, the assistant message reads
  the automatic-image caption, not "Hi".
\<close>

theorem stop_after_tool_call_replaces_text:
  "m_text (last (messages (resultState (sendMessage (clockAt 100 200) (ascii ''Hello'') None False
      \<lparr>imageEnv = stoppedImage,
       events = [Deliver (textChunk (ascii ''Hi'')), Deliver (imageChunk (ascii ''cat''))],
       streamEnd = None\<rparr> initialState)))) = AUTO_IMAGE_CAPTION \<and>
   concat (map chunkText [textChunk (ascii ''Hi''), imageChunk (ascii ''cat'')]) = ascii ''Hi'' \<and>
   AUTO_IMAGE_CAPTION \<noteq> ascii ''Hi''"
proof -
  have p: "\<forall>c\<in>set [textChunk (ascii ''Hi'')]. imageCall c = None"
    by (simp add: imageCall_def textChunk_def)
  have fa: "f_args \<lparr>f_name = ascii ''generate_image'', f_args = Some (Some (ascii ''cat''))\<rparr>
              = Some (Some (ascii ''cat''))"
    by simp
  have sw: "stopWhileAwaiting stoppedImage" by (simp add: stoppedImage_def)
  from stop_during_image_request [OF hello_valid p imageChunk_call fa sw,
      of "clockAt 100 200" "[]" None initialState]
  obtain st' where r: "sendMessage (clockAt 100 200) (ascii ''Hello'') None False
      \<lparr>imageEnv = stoppedImage,
       events = [Deliver (textChunk (ascii ''Hi'')), Deliver (imageChunk (ascii ''cat''))],
       streamEnd = None\<rparr> initialState = Settled st'"
    and l: "last (messages st') = placeholderOf (clockAt 100 200) AUTO_IMAGE_CAPTION"
    by auto
  have 1: "m_text (last (messages (resultState (sendMessage (clockAt 100 200) (ascii ''Hello'') None False
      \<lparr>imageEnv = stoppedImage,
       events = [Deliver (textChunk (ascii ''Hi'')), Deliver (imageChunk (ascii ''cat''))],
       streamEnd = None\<rparr> initialState)))) = AUTO_IMAGE_CAPTION"
    by (simp add: r l resultState_def placeholderOf_def)
  have 2: "concat (map chunkText [textChunk (ascii ''Hi''), imageChunk (ascii ''cat'')]) = ascii ''Hi''"
    by (simp add: chunkText_def textChunk_def imageChunk_def)
  have 3: "AUTO_IMAGE_CAPTION \<noteq> ascii ''Hi''"
    by (simp add: AUTO_IMAGE_CAPTION_def ascii_def)
  from 1 2 3 show ?thesis by simp
qed

text \<open>
  C4, amended. A conversational turn is stopped after the chunks \<open>cs\<close>, none of them a
  \<open>generate_image\<close> call, have been applied. Whatever the stream does afterwards, the call
  settles; the live list is the list before the call followed by the user message and the
  assistant message, whose text is the concatenation of the texts of \<open>cs\<close> and whose error
  flag is unset; no further message is appended; the loading flag is false. When instead a
  chunk with a \<open>generate_image\<close> call (with arguments) follows \<open>cs\<close> and stop is pressed
  while the image request is pending, the call settles with the assistant text replaced by
  the automatic-image caption, no error flag, no message appended and the loading flag
  false.
\<close>

theorem cancel_mid_stream:
  assumes valid: "truthy (trim text) \<or> attachment \<noteq> None"
      and plain: "\<forall>c\<in>set cs. imageCall c = None"
  shows "(\<exists>st'. sendMessage clk text attachment False
                  \<lparr>imageEnv = env, events = map Deliver cs @ UserStop # rest, streamEnd = fin\<rparr> st = Settled st' \<and>
                messages st' = messages st @ [userMessageOf clk text attachment,
                                              placeholderOf clk (concat (map chunkText cs))] \<and>
                isLoading st' = False) \<and>
         (\<forall>tc call p.
            imageCall tc = Some call \<longrightarrow> f_args call = Some p \<longrightarrow> stopWhileAwaiting env \<longrightarrow>
            (\<exists>st'. sendMessage clk text attachment False
                     \<lparr>imageEnv = env, events = map Deliver cs @ Deliver tc # rest, streamEnd = fin\<rparr> st
                     = Settled st' \<and>
                   messages st' =
                     map (\<lambda>msg. if m_id msg = toString (t_botMsgId clk + 1)
                                then msg\<lparr>m_text := AUTO_IMAGE_CAPTION\<rparr> else msg)
                       (messages st @ [userMessageOf clk text attachment,
                                       placeholderOf clk (concat (map chunkText cs))]) \<and>
                   last (messages st') = placeholderOf clk AUTO_IMAGE_CAPTION \<and>
                   isLoading st' = False))"
proof (intro conjI allI impI)
  show "\<exists>st'. sendMessage clk text attachment False
                  \<lparr>imageEnv = env, events = map Deliver cs @ UserStop # rest, streamEnd = fin\<rparr> st = Settled st' \<and>
                messages st' = messages st @ [userMessageOf clk text attachment,
                                              placeholderOf clk (concat (map chunkText cs))] \<and>
                isLoading st' = False"
    by (rule stop_between_chunks[OF valid plain])
next
  fix tc call p
  assume "imageCall tc = Some call" "f_args call = Some p" "stopWhileAwaiting env"
  then show "\<exists>st'. sendMessage clk text attachment False
                     \<lparr>imageEnv = env, events = map Deliver cs @ Deliver tc # rest, streamEnd = fin\<rparr> st
                     = Settled st' \<and>
                   messages st' =
                     map (\<lambda>msg. if m_id msg = toString (t_botMsgId clk + 1)
                                then msg\<lparr>m_text := AUTO_IMAGE_CAPTION\<rparr> else msg)
                       (messages st @ [userMessageOf clk text attachment,
                                       placeholderOf clk (concat (map chunkText cs))]) \<and>
                   last (messages st') = placeholderOf clk AUTO_IMAGE_CAPTION \<and>
                   isLoading st' = False"
    by (rule stop_during_image_request[OF valid plain])
qed

theorem cancel_mid_stream_witness:
  "(\<exists>st'. sendMessage (clockAt 100 200) (ascii ''Hello'') None False
            \<lparr>imageEnv = stoppedImage,
             events = [Deliver (textChunk (ascii ''Hi'')), Deliver (textChunk (ascii '' there'')),
                       UserStop, Deliver (textChunk (ascii ''!''))],
             streamEnd = None\<rparr> initialState = Settled st' \<and>
          messages st' = [userMessageOf (clockAt 100 200) (ascii ''Hello'') None,
                          placeholderOf (clockAt 100 200) (ascii ''Hi there'')] \<and>
          isLoading st' = False) \<and>
   (\<exists>st'. sendMessage (clockAt 100 200) (ascii ''Hello'') None False
            \<lparr>imageEnv = stoppedImage,
             events = [Deliver (textChunk (ascii ''Hi'')), Deliver (textChunk (ascii '' there'')),
                       Deliver (imageChunk (ascii ''cat'')), Deliver (textChunk (ascii ''!''))],
             streamEnd = None\<rparr> initialState = Settled st' \<and>
          last (messages st') = placeholderOf (clockAt 100 200) AUTO_IMAGE_CAPTION \<and>
          isLoading st' = False)"
proof -
  have p: "\<forall>c\<in>set [textChunk (ascii ''Hi''), textChunk (ascii '' there'')]. imageCall c = None"
    by (simp add: imageCall_def textChunk_def)
  have fa: "f_args \<lparr>f_name = ascii ''generate_image'', f_args = Some (Some (ascii ''cat''))\<rparr>
              = Some (Some (ascii ''cat''))"
    by simp
  have sw: "stopWhileAwaiting stoppedImage" by (simp add: stoppedImage_def)
  note t = cancel_mid_stream [OF hello_valid p, of "clockAt 100 200" stoppedImage
      "[Deliver (textChunk (ascii ''!''))]" None initialState]
  from t have a: "\<exists>st'. sendMessage (clockAt 100 200) (ascii ''Hello'') None False
            \<lparr>imageEnv = stoppedImage,
             events = [Deliver (textChunk (ascii ''Hi'')), Deliver (textChunk (ascii '' there'')),
                       UserStop, Deliver (textChunk (ascii ''!''))],
             streamEnd = None\<rparr> initialState = Settled st' \<and>
          messages st' = [userMessageOf (clockAt 100 200) (ascii ''Hello'') None,
                          placeholderOf (clockAt 100 200) (ascii ''Hi there'')] \<and>
          isLoading st' = False"
    by (simp add: chunkText_def textChunk_def ascii_def initialState_def)
  from t [THEN conjunct2, rule_format, OF imageChunk_call fa sw]
  have b: "\<exists>st'. sendMessage (clockAt 100 200) (ascii ''Hello'') None False
            \<lparr>imageEnv = stoppedImage,
             events = [Deliver (textChunk (ascii ''Hi'')), Deliver (textChunk (ascii '' there'')),
                       Deliver (imageChunk (ascii ''cat'')), Deliver (textChunk (ascii ''!''))],
             streamEnd = None\<rparr> initialState = Settled st' \<and>
          last (messages st') = placeholderOf (clockAt 100 200) AUTO_IMAGE_CAPTION \<and>
          isLoading st' = False"
    by auto
  from a b show ?thesis by simp
qed

section \<open>Text of a finished streaming turn\<close>

text \<open>
  C5, as the specification states it, fails: a chunk that carries a \<open>generate_image\<close> call
  replaces the text streamed so far. After the chunks "Hi" and the call, the assistant
  message reads the caption of the image path, not "Hi".
\<close>

theorem tool_call_discards_streamed_text:
  "m_text (last (messages (resultState (sendMessage (clockAt 100 200) (ascii ''Hello'') None False
      \<lparr>imageEnv = noImage,
       events = [Deliver (textChunk (ascii ''Hi'')), Deliver (imageChunk (ascii ''cat''))],
       streamEnd = None\<rparr> initialState)))) = IMAGE_FAILED_CAPTION \<and>
   expectedText [textChunk (ascii ''Hi''), imageChunk (ascii ''cat'')] = ascii ''Hi'' \<and>
   IMAGE_FAILED_CAPTION \<noteq> ascii ''Hi''"
proof -
  have p: "\<forall>c\<in>set [textChunk (ascii ''Hi'')]. imageCall c = None"
    by (simp add: imageCall_def textChunk_def)
  have c: "imageCall (imageChunk (ascii ''cat'')) =
             Some \<lparr>f_name = ascii ''generate_image'', f_args = Some (Some (ascii ''cat''))\<rparr>"
    by (simp add: imageCall_def imageChunk_def)
  have "sendMessage (clockAt 100 200) (ascii ''Hello'') None False
      \<lparr>imageEnv = noImage,
       events = map Deliver ([textChunk (ascii ''Hi'')] @ imageChunk (ascii ''cat'') # []),
       streamEnd = None\<rparr> initialState
     = sendMessage (clockAt 100 200) (ascii ''Hello'') None False
      \<lparr>imageEnv = noImage, events = [Deliver (imageChunk (ascii ''cat''))], streamEnd = None\<rparr> initialState"
    by (rule sendMessage_call_after_plain[OF p c]) simp
  then have 1: "m_text (last (messages (resultState (sendMessage (clockAt 100 200) (ascii ''Hello'') None False
      \<lparr>imageEnv = noImage,
       events = [Deliver (textChunk (ascii ''Hi'')), Deliver (imageChunk (ascii ''cat''))],
       streamEnd = None\<rparr> initialState)))) = IMAGE_FAILED_CAPTION"
    by (simp add: tool_call_run resultState_def placeholderOf_def)
  have 2: "expectedText [textChunk (ascii ''Hi''), imageChunk (ascii ''cat'')] = ascii ''Hi''"
    by (simp add: expectedText_def c chunkText_def) (simp add: imageCall_def textChunk_def chunkText_def)
  have 3: "IMAGE_FAILED_CAPTION \<noteq> ascii ''Hi''"
    by (simp add: IMAGE_FAILED_CAPTION_def ascii_def)
  from 1 2 3 show ?thesis by simp
qed

text \<open>
  C5, amended. Without cancellation and without a \<open>generate_image\<close> call, the assistant
  text of the settled turn is the concatenation of the chunk texts in order. When a chunk
  carries a \<open>generate_image\<close> call with arguments, the turn ends exactly as if that chunk
  had been the only one delivered: neither the chunks before it nor those after it
  contribute to the final text.
\<close>

theorem stream_text_concatenation:
  assumes valid: "truthy (trim text) \<or> attachment \<noteq> None"
      and plain: "\<forall>c\<in>set cs. imageCall c = None"
  shows "(\<exists>st'. sendMessage clk text attachment False
                  \<lparr>imageEnv = env, events = map Deliver cs, streamEnd = None\<rparr> st = Settled st' \<and>
                messages st' = messages st @ [userMessageOf clk text attachment,
                                              placeholderOf clk (concat (map chunkText cs))] \<and>
                isLoading st' = False) \<and>
         (\<forall>tc call p post fin.
            imageCall tc = Some call \<longrightarrow> f_args call = Some p \<longrightarrow>
            sendMessage clk text attachment False
              \<lparr>imageEnv = env, events = map Deliver (cs @ tc # post), streamEnd = fin\<rparr> st
            = sendMessage clk text attachment False
              \<lparr>imageEnv = env, events = [Deliver tc], streamEnd = None\<rparr> st)"
proof (intro conjI allI impI)
  from stream_turn_prefix[OF valid plain, of clk st] obtain tn st1 st3 where
    b: "sendMessage_begin clk text attachment False st = Some (tn, st1)"
    and loop: "\<And>env es fin. sendMessage_try text False
                \<lparr>imageEnv = env, events = map Deliver cs @ es, streamEnd = fin\<rparr> tn st1
              = streamLoop env text tn es fin st3"
    and m3: "messages st3 = messages st @ [userMessageOf clk text attachment,
                                           placeholderOf clk (concat (map chunkText cs))]"
    and r3: "abortControllerRef st3 = Some (controller tn)"
    by blast
  from loop[of env "[]" None]
  have "sendMessage clk text attachment False
          \<lparr>imageEnv = env, events = map Deliver cs, streamEnd = None\<rparr> st
        = Settled (sendMessage_finally tn st3)"
    using b by (simp add: sendMessage_def)
  then show "\<exists>st'. sendMessage clk text attachment False
                  \<lparr>imageEnv = env, events = map Deliver cs, streamEnd = None\<rparr> st = Settled st' \<and>
                messages st' = messages st @ [userMessageOf clk text attachment,
                                              placeholderOf clk (concat (map chunkText cs))] \<and>
                isLoading st' = False"
    using finally_active[OF r3] m3 by simp
next
  fix tc call p post fin
  assume "imageCall tc = Some call" "f_args call = Some p"
  then show "sendMessage clk text attachment False
              \<lparr>imageEnv = env, events = map Deliver (cs @ tc # post), streamEnd = fin\<rparr> st
            = sendMessage clk text attachment False
              \<lparr>imageEnv = env, events = [Deliver tc], streamEnd = None\<rparr> st"
    by (rule sendMessage_call_after_plain[OF plain])
qed

theorem stream_text_concatenation_witness:
  "(\<exists>st'. sendMessage (clockAt 100 200) (ascii ''Hello'') None False
             \<lparr>imageEnv = noImage,
              events = [Deliver (textChunk (ascii ''Hi'')), Deliver (textChunk (ascii '' there''))],
              streamEnd = None\<rparr> initialState = Settled st' \<and>
           messages st' = [userMessageOf (clockAt 100 200) (ascii ''Hello'') None,
                           placeholderOf (clockAt 100 200) (ascii ''Hi there'')] \<and>
           isLoading st' = False) \<and>
   sendMessage (clockAt 100 200) (ascii ''Hello'') None False
      \<lparr>imageEnv = noImage,
       events = [Deliver (textChunk (ascii ''Hi'')), Deliver (textChunk (ascii '' there'')),
                 Deliver (imageChunk (ascii ''cat'')), Deliver (textChunk (ascii ''!''))],
       streamEnd = None\<rparr> initialState
   = sendMessage (clockAt 100 200) (ascii ''Hello'') None False
      \<lparr>imageEnv = noImage, events = [Deliver (imageChunk (ascii ''cat''))], streamEnd = None\<rparr> initialState"
proof -
  have p: "\<forall>c\<in>set [textChunk (ascii ''Hi''), textChunk (ascii '' there'')]. imageCall c = None"
    by (simp add: imageCall_def textChunk_def)
  have c: "imageCall (imageChunk (ascii ''cat'')) =
             Some \<lparr>f_name = ascii ''generate_image'', f_args = Some (Some (ascii ''cat''))\<rparr>"
    by (simp add: imageCall_def imageChunk_def)
  note t = stream_text_concatenation [OF hello_valid p, of "clockAt 100 200" noImage initialState]
  from t have a: "\<exists>st'. sendMessage (clockAt 100 200) (ascii ''Hello'') None False
             \<lparr>imageEnv = noImage,
              events = [Deliver (textChunk (ascii ''Hi'')), Deliver (textChunk (ascii '' there''))],
              streamEnd = None\<rparr> initialState = Settled st' \<and>
           messages st' = [userMessageOf (clockAt 100 200) (ascii ''Hello'') None,
                           placeholderOf (clockAt 100 200) (ascii ''Hi there'')] \<and>
           isLoading st' = False"
    by (simp add: chunkText_def textChunk_def ascii_def initialState_def)
  have fa: "f_args \<lparr>f_name = ascii ''generate_image'', f_args = Some (Some (ascii ''cat''))\<rparr>
              = Some (Some (ascii ''cat''))"
    by simp
  note b = t [THEN conjunct2, rule_format, OF c fa, of "[textChunk (ascii ''!'')]" None]
  from a b show ?thesis by simp
qed

section \<open>Failure of a turn\<close>






lemma friendly_serverError: "getFriendlyErrorMessage serverError = GENERIC_MESSAGE"
  by (simp add: getFriendlyErrorMessage_def serverError_def ascii_def)



section \<open>Title of a session\<close>

lemma deriveTitle_rule:
  assumes "find (\<lambda>m. m_sender m = User) msgs = Some firstUserMsg"
  shows "deriveTitle DEFAULT_TITLE msgs =
           (if length (m_text firstUserMsg) > 30 then take 30 (m_text firstUserMsg) @ ascii ''...''
            else m_text firstUserMsg)"
proof -
  from assms have "msgs \<noteq> []" by auto
  with assms show ?thesis by (simp add: deriveTitle_def)
qed

lemma creation_title:
  "sendMessage_begin clk text att img st = Some (tn, st') \<Longrightarrow> truthyStr (currentSessionId st) = None \<Longrightarrow>
   s_title (hd (sessions st')) = (if text = [] then DEFAULT_TITLE else take 30 text)"
  by (auto simp add: sendMessage_begin_def Let_def truthy_def split: if_splits)

text \<open>
  C1. The title of a session should be the first 30 code units of the first user message
  plus "..." when the message is longer, and the placeholder when the message is empty.
  A first message of 31 code units creates a session whose title is the 30-unit prefix
  with no ellipsis, and the sync leaves it so, since the title is no longer the
  placeholder. An empty first message (sent with an attachment) creates a session with the
  placeholder title, and the sync then replaces it by the empty string.
\<close>

theorem title_derivation_divergence:
  "length longText = 31 \<and>
   titlesAtCreation (sendMessage_begin (clockAt 100 200) longText None False initialState)
     = Some [take 30 longText] \<and>
   titlesAfterSync 101 (sendMessage_begin (clockAt 100 200) longText None False initialState)
     = Some [take 30 longText] \<and>
   take 30 longText \<noteq> take 30 longText @ ascii ''...'' \<and>
   titlesAtCreation (sendMessage_begin (clockAt 100 200) [] (Some sampleAttachment) False initialState)
     = Some [DEFAULT_TITLE] \<and>
   titlesAfterSync 101 (sendMessage_begin (clockAt 100 200) [] (Some sampleAttachment) False initialState)
     = Some [[]] \<and>
   DEFAULT_TITLE \<noteq> []"
proof -
  have l: "length longText = 31" by (simp add: longText_def ascii_def)
  have nb: "truthy (trim longText)"
    by (simp add: longText_def ascii_def trim_def truthy_def isWhiteSpace_def)
  have nd: "take 30 longText \<noteq> DEFAULT_TITLE"
    by (simp add: longText_def DEFAULT_TITLE_def ascii_def)
  have t3: "truthy (take 30 longText)" by (simp add: longText_def ascii_def truthy_def)
  have id: "toString 100 \<noteq> []" by (simp add: toString_def decimal.simps)
  have c1: "titlesAtCreation (sendMessage_begin (clockAt 100 200) longText None False initialState)
     = Some [take 30 longText]"
    using nb t3 by (simp add: titlesAtCreation_def sendMessage_begin_def Let_def initialState_def
        truthyStr_def clockAt_def)
  have s1: "titlesAfterSync 101 (sendMessage_begin (clockAt 100 200) longText None False initialState)
     = Some [take 30 longText]"
    using nb t3 nd id by (simp add: titlesAfterSync_def sendMessage_begin_def Let_def initialState_def
        truthyStr_def clockAt_def runSync_def syncEffect_def syncUpdater_def nothingChanged_def
        deriveTitle_def applyUpdate_def sortSessions_def)
  have c2: "titlesAtCreation (sendMessage_begin (clockAt 100 200) [] (Some sampleAttachment) False initialState)
     = Some [DEFAULT_TITLE]"
    by (simp add: titlesAtCreation_def sendMessage_begin_def Let_def initialState_def
        truthyStr_def clockAt_def truthy_def)
  have s2: "titlesAfterSync 101 (sendMessage_begin (clockAt 100 200) [] (Some sampleAttachment) False initialState)
     = Some [[]]"
    using id by (simp add: titlesAfterSync_def sendMessage_begin_def Let_def initialState_def
        truthyStr_def clockAt_def runSync_def syncEffect_def syncUpdater_def nothingChanged_def
        deriveTitle_def applyUpdate_def sortSessions_def truthy_def)
  have d: "DEFAULT_TITLE \<noteq> []" by (simp add: DEFAULT_TITLE_def ascii_def)
  have e: "ascii ''...'' \<noteq> []" by (simp add: ascii_def)
  from l c1 s1 c2 s2 d e show ?thesis by simp
qed

end
